theory Spec2Isabelle
  imports Complex_Main "HOL-Library.Signed_Division"
begin

section \<open>NARCDETECT: the dual-matrix detection-time calculator\<close>

text \<open>
  The development embeds the C program of the repository (the saliva and urine version
  with the multi-dose curve) function by function. Conventions of the embedding:
  \<^item> a C \<open>float\<close> is a \<open>real\<close>: arithmetic is exact, so rounding, infinities and NaN
    are outside the model; \<open>exp\<close>, \<open>log\<close> and \<open>fabs\<close> are \<open>exp\<close>, \<open>ln\<close> and \<open>abs\<close>;
  \<^item> a C \<open>int\<close> has a range that the compiler fixes, from \<open>- int_max - 1\<close> to
    \<open>int_max\<close>. The range and the result of a cast \<open>(int)x\<close> of a float outside it
    (undefined in C) are a parameter, the \<open>Target\<close>; inside the range the cast truncates
    toward zero (\<open>c_trunc\<close>). Integer division truncates toward zero (\<open>sdiv\<close>), and
    the one addition on a cast result wraps around. The functions that cast carry the
    target as their first argument (\<open>num_doses_of_on\<close>, \<open>decompose_time_on\<close>,
    \<open>calculate_detection_time_on\<close>); the same names without \<open>_on\<close> are the program
    built with a 32-bit \<open>int\<close> on x86 (\<open>ia32\<close>);
  \<^item> the enum constants keep their names and their integer values;
  \<^item> the tables \<open>drugs\<close> and \<open>routes\<close> are functions of the index; the entry 0 of the
    static arrays is zero-initialised, and the same zero entry stands for every index the
    arrays do not have (the program only indexes them with identifiers it resolved);
  \<^item> what the program prints is returned as data: a record of the computed quantities,
    the analysis line of the curve, the rows of the spectrum, the outcome of \<open>main\<close>.
\<close>

subsection \<open>Enumerations and reference tables\<close>

record DrugData =
  name :: string
  halflife_saliva :: real
  halflife_urine :: real
  cutoff_saliva :: real
  cutoff_urine :: real
  dosing_interval :: real
  metabolite_info :: string

text \<open>The field \<open>name\<close> of the route structure is called \<open>route_name\<close> here.\<close>

record RouteData =
  route_name :: string
  bioavailability :: real
  absorption_rate :: real
  oral_factor :: real

abbreviation (input) NUM_DRUGS :: int where "NUM_DRUGS \<equiv> 24"
abbreviation (input) NUM_ROUTES :: int where "NUM_ROUTES \<equiv> 11"

abbreviation (input) DRUG_FENTANYL :: int where "DRUG_FENTANYL \<equiv> 1"
abbreviation (input) DRUG_NITAZENES :: int where "DRUG_NITAZENES \<equiv> 2"
abbreviation (input) DRUG_AMPHETAMINE :: int where "DRUG_AMPHETAMINE \<equiv> 3"
abbreviation (input) DRUG_METHAMPHETAMINE :: int where "DRUG_METHAMPHETAMINE \<equiv> 4"
abbreviation (input) DRUG_DEXTROAMPHETAMINE :: int where "DRUG_DEXTROAMPHETAMINE \<equiv> 5"
abbreviation (input) DRUG_HYDROMORPHONE :: int where "DRUG_HYDROMORPHONE \<equiv> 6"
abbreviation (input) DRUG_OXYCODONE :: int where "DRUG_OXYCODONE \<equiv> 7"
abbreviation (input) DRUG_MORPHINE :: int where "DRUG_MORPHINE \<equiv> 8"
abbreviation (input) DRUG_HYDROCODONE :: int where "DRUG_HYDROCODONE \<equiv> 9"
abbreviation (input) DRUG_CODEINE :: int where "DRUG_CODEINE \<equiv> 10"
abbreviation (input) DRUG_PETHIDINE :: int where "DRUG_PETHIDINE \<equiv> 11"
abbreviation (input) DRUG_BARBITURATES :: int where "DRUG_BARBITURATES \<equiv> 12"
abbreviation (input) DRUG_BENZODIAZEPINES :: int where "DRUG_BENZODIAZEPINES \<equiv> 13"
abbreviation (input) DRUG_ALCOHOL :: int where "DRUG_ALCOHOL \<equiv> 14"
abbreviation (input) DRUG_LSD :: int where "DRUG_LSD \<equiv> 15"
abbreviation (input) DRUG_KETAMINE :: int where "DRUG_KETAMINE \<equiv> 16"
abbreviation (input) DRUG_MESCALINE :: int where "DRUG_MESCALINE \<equiv> 17"
abbreviation (input) DRUG_PSILOCYBIN :: int where "DRUG_PSILOCYBIN \<equiv> 18"
abbreviation (input) DRUG_DMT :: int where "DRUG_DMT \<equiv> 19"
abbreviation (input) DRUG_GHB :: int where "DRUG_GHB \<equiv> 20"
abbreviation (input) DRUG_METHAQUALONE :: int where "DRUG_METHAQUALONE \<equiv> 21"
abbreviation (input) DRUG_METHADONE :: int where "DRUG_METHADONE \<equiv> 22"
abbreviation (input) DRUG_DEXTROPROPOXYPHENE :: int where "DRUG_DEXTROPROPOXYPHENE \<equiv> 23"
abbreviation (input) DRUG_DIAMORPHINE :: int where "DRUG_DIAMORPHINE \<equiv> 24"

abbreviation (input) ROUTE_ORAL :: int where "ROUTE_ORAL \<equiv> 1"
abbreviation (input) ROUTE_INTRAVENOUS :: int where "ROUTE_INTRAVENOUS \<equiv> 2"
abbreviation (input) ROUTE_INTRAMUSCULAR :: int where "ROUTE_INTRAMUSCULAR \<equiv> 3"
abbreviation (input) ROUTE_SUBCUTANEOUS :: int where "ROUTE_SUBCUTANEOUS \<equiv> 4"
abbreviation (input) ROUTE_INTRANASAL :: int where "ROUTE_INTRANASAL \<equiv> 5"
abbreviation (input) ROUTE_INHALATION :: int where "ROUTE_INHALATION \<equiv> 6"
abbreviation (input) ROUTE_SUBLINGUAL :: int where "ROUTE_SUBLINGUAL \<equiv> 7"
abbreviation (input) ROUTE_TRANSDERMAL :: int where "ROUTE_TRANSDERMAL \<equiv> 8"
abbreviation (input) ROUTE_RECTAL :: int where "ROUTE_RECTAL \<equiv> 9"
abbreviation (input) ROUTE_BUCCAL :: int where "ROUTE_BUCCAL \<equiv> 10"
abbreviation (input) ROUTE_TOPICAL :: int where "ROUTE_TOPICAL \<equiv> 11"

definition drugs :: "int \<Rightarrow> DrugData" where
  "drugs d =
    (if d = DRUG_FENTANYL then
       \<lparr>name = ''FENTANYL'', halflife_saliva = 7, halflife_urine = 20,
        cutoff_saliva = 1, cutoff_urine = 2, dosing_interval = 4,
        metabolite_info = ''Parent drug + norfentanyl''\<rparr>
     else if d = DRUG_NITAZENES then
       \<lparr>name = ''NITAZENES'', halflife_saliva = 8, halflife_urine = 24,
        cutoff_saliva = 0.5, cutoff_urine = 1, dosing_interval = 6,
        metabolite_info = ''Parent drug + hydroxy metabolites''\<rparr>
     else if d = DRUG_AMPHETAMINE then
       \<lparr>name = ''AMPHETAMINE'', halflife_saliva = 8, halflife_urine = 30,
        cutoff_saliva = 50, cutoff_urine = 500, dosing_interval = 12,
        metabolite_info = ''Unchanged drug (80%) + metabolites''\<rparr>
     else if d = DRUG_METHAMPHETAMINE then
       \<lparr>name = ''METHAMPHETAMINE'', halflife_saliva = 12, halflife_urine = 36,
        cutoff_saliva = 50, cutoff_urine = 500, dosing_interval = 8,
        metabolite_info = ''Parent drug + amphetamine metabolite''\<rparr>
     else if d = DRUG_DEXTROAMPHETAMINE then
       \<lparr>name = ''DEXTROAMPHETAMINE'', halflife_saliva = 9, halflife_urine = 32,
        cutoff_saliva = 50, cutoff_urine = 500, dosing_interval = 12,
        metabolite_info = ''Unchanged drug + hydroxylated metabolites''\<rparr>
     else if d = DRUG_HYDROMORPHONE then
       \<lparr>name = ''HYDROMORPHONE'', halflife_saliva = 3, halflife_urine = 11,
        cutoff_saliva = 1, cutoff_urine = 10, dosing_interval = 4,
        metabolite_info = ''Parent drug + hydromorphone-3-glucuronide''\<rparr>
     else if d = DRUG_OXYCODONE then
       \<lparr>name = ''OXYCODONE'', halflife_saliva = 4.5, halflife_urine = 19,
        cutoff_saliva = 5, cutoff_urine = 100, dosing_interval = 6,
        metabolite_info = ''Parent drug + oxymorphone + glucuronides''\<rparr>
     else if d = DRUG_MORPHINE then
       \<lparr>name = ''MORPHINE'', halflife_saliva = 3.5, halflife_urine = 15,
        cutoff_saliva = 10, cutoff_urine = 300, dosing_interval = 4,
        metabolite_info = ''Parent drug + morphine-3-glucuronide + M6G''\<rparr>
     else if d = DRUG_HYDROCODONE then
       \<lparr>name = ''HYDROCODONE'', halflife_saliva = 4, halflife_urine = 18,
        cutoff_saliva = 5, cutoff_urine = 100, dosing_interval = 6,
        metabolite_info = ''Parent drug + hydromorphone + glucuronides''\<rparr>
     else if d = DRUG_CODEINE then
       \<lparr>name = ''CODEINE'', halflife_saliva = 3, halflife_urine = 12,
        cutoff_saliva = 10, cutoff_urine = 300, dosing_interval = 6,
        metabolite_info = ''Parent drug + morphine + norcodeine''\<rparr>
     else if d = DRUG_PETHIDINE then
       \<lparr>name = ''PETHIDINE'', halflife_saliva = 4, halflife_urine = 16,
        cutoff_saliva = 25, cutoff_urine = 200, dosing_interval = 6,
        metabolite_info = ''Parent drug + norpethidine''\<rparr>
     else if d = DRUG_BARBITURATES then
       \<lparr>name = ''BARBITURATES'', halflife_saliva = 120, halflife_urine = 240,
        cutoff_saliva = 50, cutoff_urine = 200, dosing_interval = 24,
        metabolite_info = ''Parent drugs + hydroxylated metabolites''\<rparr>
     else if d = DRUG_BENZODIAZEPINES then
       \<lparr>name = ''BENZODIAZEPINES'', halflife_saliva = 72, halflife_urine = 168,
        cutoff_saliva = 10, cutoff_urine = 200, dosing_interval = 24,
        metabolite_info = ''Parent drugs + oxazepam + glucuronides''\<rparr>
     else if d = DRUG_ALCOHOL then
       \<lparr>name = ''ALCOHOL'', halflife_saliva = 1, halflife_urine = 2,
        cutoff_saliva = 25, cutoff_urine = 100, dosing_interval = 2,
        metabolite_info = ''Ethanol + EtG (up to 80 hours urine)''\<rparr>
     else if d = DRUG_LSD then
       \<lparr>name = ''LSD'', halflife_saliva = 5, halflife_urine = 8,
        cutoff_saliva = 0.5, cutoff_urine = 0.5, dosing_interval = 12,
        metabolite_info = ''Parent drug + iso-LSD + nor-LSD''\<rparr>
     else if d = DRUG_KETAMINE then
       \<lparr>name = ''KETAMINE'', halflife_saliva = 3.5, halflife_urine = 14,
        cutoff_saliva = 25, cutoff_urine = 100, dosing_interval = 4,
        metabolite_info = ''Parent drug + norketamine + dehydronorketamine''\<rparr>
     else if d = DRUG_MESCALINE then
       \<lparr>name = ''MESCALINE'', halflife_saliva = 8, halflife_urine = 36,
        cutoff_saliva = 25, cutoff_urine = 100, dosing_interval = 12,
        metabolite_info = ''Parent drug + 3,4,5-trimethoxyphenylacetic acid''\<rparr>
     else if d = DRUG_PSILOCYBIN then
       \<lparr>name = ''PSILOCYBIN'', halflife_saliva = 3, halflife_urine = 13,
        cutoff_saliva = 1, cutoff_urine = 10, dosing_interval = 8,
        metabolite_info = ''Psilocin (active metabolite) + glucuronide''\<rparr>
     else if d = DRUG_DMT then
       \<lparr>name = ''DMT'', halflife_saliva = 0.5, halflife_urine = 2,
        cutoff_saliva = 1, cutoff_urine = 10, dosing_interval = 1,
        metabolite_info = ''Indole-3-acetic acid + 6-hydroxyindole-3-acetic acid''\<rparr>
     else if d = DRUG_GHB then
       \<lparr>name = ''GHB'', halflife_saliva = 1, halflife_urine = 6,
        cutoff_saliva = 5, cutoff_urine = 10, dosing_interval = 2,
        metabolite_info = ''Parent drug (endogenous levels present)''\<rparr>
     else if d = DRUG_METHAQUALONE then
       \<lparr>name = ''METHAQUALONE'', halflife_saliva = 36, halflife_urine = 72,
        cutoff_saliva = 25, cutoff_urine = 200, dosing_interval = 12,
        metabolite_info = ''Parent drug + hydroxylated metabolites''\<rparr>
     else if d = DRUG_METHADONE then
       \<lparr>name = ''METHADONE'', halflife_saliva = 48, halflife_urine = 86,
        cutoff_saliva = 25, cutoff_urine = 200, dosing_interval = 24,
        metabolite_info = ''Parent drug + EDDP + EMDP metabolites''\<rparr>
     else if d = DRUG_DEXTROPROPOXYPHENE then
       \<lparr>name = ''DEXTROPROPOXYPHENE'', halflife_saliva = 18, halflife_urine = 48,
        cutoff_saliva = 10, cutoff_urine = 300, dosing_interval = 8,
        metabolite_info = ''Parent drug + norpropoxyphene''\<rparr>
     else if d = DRUG_DIAMORPHINE then
       \<lparr>name = ''DIAMORPHINE'', halflife_saliva = 8, halflife_urine = 24,
        cutoff_saliva = 2, cutoff_urine = 10, dosing_interval = 4,
        metabolite_info = ''6-MAM (specific) + morphine + morphine glucuronides''\<rparr>
     else \<lparr>name = [], halflife_saliva = 0, halflife_urine = 0, cutoff_saliva = 0,
           cutoff_urine = 0, dosing_interval = 0, metabolite_info = []\<rparr>)"

definition routes :: "int \<Rightarrow> RouteData" where
  "routes r =
    (if r = ROUTE_ORAL then
       \<lparr>route_name = ''ORAL'', bioavailability = 0.7, absorption_rate = 1.5, oral_factor = 0.01\<rparr>
     else if r = ROUTE_INTRAVENOUS then
       \<lparr>route_name = ''INTRAVENOUS'', bioavailability = 1, absorption_rate = 0.1, oral_factor = 0.05\<rparr>
     else if r = ROUTE_INTRAMUSCULAR then
       \<lparr>route_name = ''INTRAMUSCULAR'', bioavailability = 0.9, absorption_rate = 0.5, oral_factor = 0.03\<rparr>
     else if r = ROUTE_SUBCUTANEOUS then
       \<lparr>route_name = ''SUBCUTANEOUS'', bioavailability = 0.8, absorption_rate = 0.8, oral_factor = 0.025\<rparr>
     else if r = ROUTE_INTRANASAL then
       \<lparr>route_name = ''INTRANASAL'', bioavailability = 0.6, absorption_rate = 0.3, oral_factor = 0.02\<rparr>
     else if r = ROUTE_INHALATION then
       \<lparr>route_name = ''INHALATION'', bioavailability = 0.9, absorption_rate = 0.1, oral_factor = 0.04\<rparr>
     else if r = ROUTE_SUBLINGUAL then
       \<lparr>route_name = ''SUBLINGUAL'', bioavailability = 0.8, absorption_rate = 0.5, oral_factor = 0.02\<rparr>
     else if r = ROUTE_TRANSDERMAL then
       \<lparr>route_name = ''TRANSDERMAL'', bioavailability = 0.9, absorption_rate = 4, oral_factor = 0.015\<rparr>
     else if r = ROUTE_RECTAL then
       \<lparr>route_name = ''RECTAL'', bioavailability = 0.7, absorption_rate = 1, oral_factor = 0.015\<rparr>
     else if r = ROUTE_BUCCAL then
       \<lparr>route_name = ''BUCCAL'', bioavailability = 0.75, absorption_rate = 0.8, oral_factor = 0.025\<rparr>
     else if r = ROUTE_TOPICAL then
       \<lparr>route_name = ''TOPICAL'', bioavailability = 0.1, absorption_rate = 8, oral_factor = 0.005\<rparr>
     else \<lparr>route_name = [], bioavailability = 0, absorption_rate = 0, oral_factor = 0\<rparr>)"

definition fentanyl_dose_constant :: real where
  "fentanyl_dose_constant = 1"

subsection \<open>C arithmetic helpers\<close>

definition c_trunc :: "real \<Rightarrow> int" where
  "c_trunc x = (if 0 \<le> x then \<lfloor>x\<rfloor> else \<lceil>x\<rceil>)"

text \<open>
  The C \<open>int\<close> of a build: its largest value (\<open>INT_MAX\<close> of \<open>limits.h\<close>, at least 32767
  in every C implementation; 32767 for the Turbo C named in the header of the source) and
  what a cast of a float gives when the truncated value is outside the range.
\<close>

record Target =
  int_max :: int
  cast_overflow :: "real \<Rightarrow> int"

text \<open>
  A 32-bit \<open>int\<close> on x86, where the conversion instruction gives the most negative value
  for every operand outside the range.
\<close>

definition ia32 :: Target where
  "ia32 = \<lparr>int_max = 2147483647, cast_overflow = (\<lambda>x. - 2147483648)\<rparr>"

text \<open>The cast \<open>(int)x\<close> of a float.\<close>

definition c_int_cast :: "Target \<Rightarrow> real \<Rightarrow> int" where
  "c_int_cast tg x =
    (if - int_max tg - 1 \<le> c_trunc x \<and> c_trunc x \<le> int_max tg then c_trunc x
     else cast_overflow tg x)"

text \<open>The sum of two \<open>int\<close> values, wrapping around at the ends of the range.\<close>

definition c_int_add :: "Target \<Rightarrow> int \<Rightarrow> int \<Rightarrow> int" where
  "c_int_add tg a b =
    (a + b + (int_max tg + 1)) mod (2 * (int_max tg + 1)) - (int_max tg + 1)"

text \<open>
  \<open>pow(x, (float)n)\<close> with an integer-valued exponent: repeated multiplication, and the
  reciprocal for a negative exponent.
\<close>

definition c_pow :: "real \<Rightarrow> int \<Rightarrow> real" where
  "c_pow x n = (if 0 \<le> n then x ^ nat n else 1 / x ^ nat (- n))"

definition max_float :: "real \<Rightarrow> real \<Rightarrow> real" where
  "max_float a b = (if a > b then a else b)"

subsection \<open>Route adjustment\<close>

text \<open>
  \<open>adjust_route_parameters\<close> updates three locals of its caller through pointers; here
  they are the fields of a record that is passed through the blocks of the function in
  the order of the source, one definition per block.
\<close>

record RouteParams =
  bioavail :: real
  oral_fac :: real
  absorpt :: real

definition adj_alcohol :: "int \<Rightarrow> int \<Rightarrow> RouteParams \<Rightarrow> RouteParams" where
  "adj_alcohol drug route p =
    (if drug = DRUG_ALCOHOL then
       (let p1 = (if route = ROUTE_INTRAVENOUS \<or> route = ROUTE_INTRAMUSCULAR \<or>
                     route = ROUTE_SUBCUTANEOUS
                  then p\<lparr>bioavail := bioavail p * 0.1\<rparr> else p);
            p2 = (if route = ROUTE_INHALATION
                  then p1\<lparr>bioavail := 0.95, absorpt := 0.05\<rparr> else p1)
        in p2)
     else p)"

definition adj_fentanyl :: "int \<Rightarrow> int \<Rightarrow> RouteParams \<Rightarrow> RouteParams" where
  "adj_fentanyl drug route p =
    (if drug = DRUG_FENTANYL then
       (let p1 = (if route = ROUTE_TRANSDERMAL
                  then p\<lparr>absorpt := 12, bioavail := 0.92\<rparr> else p);
            p2 = (if route = ROUTE_SUBLINGUAL then p1\<lparr>bioavail := 0.8\<rparr> else p1)
        in p2)
     else p)"

definition adj_stimulants :: "int \<Rightarrow> int \<Rightarrow> RouteParams \<Rightarrow> RouteParams" where
  "adj_stimulants drug route p =
    (if drug \<ge> DRUG_AMPHETAMINE \<and> drug \<le> DRUG_DEXTROAMPHETAMINE then
       (let p1 = (if route = ROUTE_INTRANASAL
                  then p\<lparr>bioavail := 0.8, absorpt := 0.2\<rparr> else p);
            p2 = (if route = ROUTE_INHALATION
                  then p1\<lparr>bioavail := 0.7, absorpt := 0.08\<rparr> else p1)
        in p2)
     else p)"

definition adj_opioids :: "int \<Rightarrow> int \<Rightarrow> RouteParams \<Rightarrow> RouteParams" where
  "adj_opioids drug route p =
    (if (drug \<ge> DRUG_HYDROMORPHONE \<and> drug \<le> DRUG_PETHIDINE) \<or> drug = DRUG_METHADONE \<or>
        drug = DRUG_DIAMORPHINE then
       (let p1 = (if route = ROUTE_INTRAVENOUS
                  then p\<lparr>bioavail := 1.0, oral_fac := 0.08\<rparr> else p);
            p2 = (if route = ROUTE_INTRANASAL then p1\<lparr>bioavail := 0.65\<rparr> else p1)
        in p2)
     else p)"

definition adj_psychedelics :: "int \<Rightarrow> int \<Rightarrow> RouteParams \<Rightarrow> RouteParams" where
  "adj_psychedelics drug route p =
    (if drug \<ge> DRUG_LSD \<and> drug \<le> DRUG_DMT then
       (let p1 = (if route = ROUTE_INHALATION \<and> drug \<noteq> DRUG_DMT
                  then p\<lparr>bioavail := bioavail p * 0.3\<rparr> else p);
            p2 = (if drug = DRUG_DMT \<and> route = ROUTE_INHALATION
                  then p1\<lparr>bioavail := 0.8, absorpt := 0.02\<rparr> else p1)
        in p2)
     else p)"

definition adj_benzodiazepines :: "int \<Rightarrow> int \<Rightarrow> RouteParams \<Rightarrow> RouteParams" where
  "adj_benzodiazepines drug route p =
    (if drug = DRUG_BENZODIAZEPINES then
       (let p1 = (if route = ROUTE_SUBLINGUAL
                  then p\<lparr>bioavail := 0.9, absorpt := 0.3\<rparr> else p);
            p2 = (if route = ROUTE_RECTAL
                  then p1\<lparr>bioavail := 0.8, absorpt := 0.5\<rparr> else p1)
        in p2)
     else p)"

definition adj_ketamine :: "int \<Rightarrow> int \<Rightarrow> RouteParams \<Rightarrow> RouteParams" where
  "adj_ketamine drug route p =
    (if drug = DRUG_KETAMINE then
       (let p1 = (if route = ROUTE_INTRANASAL
                  then p\<lparr>bioavail := 0.5, absorpt := 0.3\<rparr> else p);
            p2 = (if route = ROUTE_INTRAMUSCULAR
                  then p1\<lparr>bioavail := 0.93, absorpt := 0.3\<rparr> else p1)
        in p2)
     else p)"

definition adj_ghb :: "int \<Rightarrow> int \<Rightarrow> RouteParams \<Rightarrow> RouteParams" where
  "adj_ghb drug route p =
    (if drug = DRUG_GHB \<and> route \<noteq> ROUTE_ORAL
     then p\<lparr>bioavail := bioavail p * 0.5\<rparr> else p)"

definition adj_topical :: "int \<Rightarrow> int \<Rightarrow> RouteParams \<Rightarrow> RouteParams" where
  "adj_topical drug route p =
    (if route = ROUTE_TOPICAL then
       (if drug \<noteq> DRUG_FENTANYL \<and> drug \<noteq> DRUG_METHADONE
        then p\<lparr>bioavail := 0.05, oral_fac := 0.002\<rparr> else p)
     else p)"

definition adjust_route_parameters :: "int \<Rightarrow> int \<Rightarrow> RouteParams \<Rightarrow> RouteParams" where
  "adjust_route_parameters drug route p =
     adj_topical drug route
       (adj_ghb drug route
         (adj_ketamine drug route
           (adj_benzodiazepines drug route
             (adj_psychedelics drug route
               (adj_opioids drug route
                 (adj_stimulants drug route
                   (adj_fentanyl drug route
                     (adj_alcohol drug route p))))))))"

subsection \<open>The detection-time calculation\<close>

text \<open>
  The body of \<open>calculate_detection_time\<close>, block by block. The saliva and the urine
  matrix run the same statements on their own half-life and cutoff, so each block is one
  definition used twice.
\<close>

text \<open>Single dose concentration (the same value is stored for both matrices).\<close>

definition single_conc :: "int \<Rightarrow> int \<Rightarrow> int \<Rightarrow> RouteParams \<Rightarrow> real" where
  "single_conc drug dosage weight p =
    (if drug = DRUG_FENTANYL then
       fentanyl_dose_constant * 1000 * oral_fac p * bioavail p / real_of_int weight
     else if drug = DRUG_ALCOHOL then
       real_of_int dosage * oral_fac p * bioavail p * 0.5 / real_of_int weight
     else
       real_of_int dosage * oral_fac p * bioavail p / real_of_int weight)"

text \<open>Half-life adjusted for the absorption rate (flip-flop kinetics).\<close>

definition flip_flop :: "real \<Rightarrow> real \<Rightarrow> real" where
  "flip_flop halflife a =
    (if a > halflife * 0.693 then halflife * (1 + a / (halflife * 0.693)) else halflife)"

definition age_factor :: "int \<Rightarrow> real" where
  "age_factor age =
    (if age < 35 then 1.15 else if age < 50 then 1.0 else if age < 65 then 0.85 else 0.7)"

definition metab_factor :: "int \<Rightarrow> real" where
  "metab_factor metab = (if metab = 1 then 0.7 else if metab = 2 then 1.0 else 1.4)"

definition elim_rate :: "real \<Rightarrow> int \<Rightarrow> int \<Rightarrow> real" where
  "elim_rate halflife age metab = 0.693 / halflife * age_factor age * metab_factor metab"

text \<open>\<open>num_doses = (int)(duration / dosing_interval) + 1\<close>.\<close>

definition num_doses_of_on :: "Target \<Rightarrow> real \<Rightarrow> real \<Rightarrow> int" where
  "num_doses_of_on tg duration interval = c_int_add tg (c_int_cast tg (duration / interval)) 1"

definition num_doses_of :: "real \<Rightarrow> real \<Rightarrow> int" where
  "num_doses_of = num_doses_of_on ia32"

definition r_factor :: "real \<Rightarrow> real \<Rightarrow> real" where
  "r_factor k interval = 1 - exp (- k * interval)"

definition accumulation_factor :: "real \<Rightarrow> int \<Rightarrow> real" where
  "accumulation_factor r n =
    (if \<bar>r - 1\<bar> < 0.001 then real_of_int n else (1 - c_pow r n) / (1 - r))"

definition steady_conc :: "real \<Rightarrow> real \<Rightarrow> real \<Rightarrow> real" where
  "steady_conc single k interval = single / (1 - exp (- k * interval))"

definition buildup :: "real \<Rightarrow> real \<Rightarrow> real" where
  "buildup tc sc =
    (let b = (tc / sc) * 100 in if b > 100 then 100 else b)"

definition detection_time :: "real \<Rightarrow> real \<Rightarrow> real \<Rightarrow> real" where
  "detection_time tc cutoff k = (if tc > cutoff then ln (tc / cutoff) / k else 0)"

text \<open>
  The conversion of a detection time to the printed days, hours, minutes and seconds.
  \<open>total_seconds\<close> is the first value of the C variable \<open>seconds\<close>, the cast
  \<open>(int)(detection_time * 3600.0f)\<close>, before it is overwritten by the remainder. The
  products and differences that follow are no larger in absolute value than that first
  value, so they stay inside the range of the \<open>int\<close> that holds it.
\<close>

record TimeParts =
  total_seconds :: int
  days :: int
  hours :: int
  minutes :: int
  seconds :: int

definition decompose_time_on :: "Target \<Rightarrow> real \<Rightarrow> TimeParts" where
  "decompose_time_on tg dt =
    (let seconds0 = c_int_cast tg (dt * 3600);
         hours0 = seconds0 sdiv 3600;
         minutes1 = (seconds0 - hours0 * 3600) sdiv 60;
         seconds1 = seconds0 - hours0 * 3600 - minutes1 * 60;
         days1 = hours0 sdiv 24;
         hours1 = hours0 - days1 * 24
     in \<lparr>total_seconds = seconds0, days = days1, hours = hours1, minutes = minutes1,
         seconds = seconds1\<rparr>)"

definition decompose_time :: "real \<Rightarrow> TimeParts" where
  "decompose_time = decompose_time_on ia32"

text \<open>
  What \<open>calculate_detection_time\<close> computes and prints. The fields carry the names of
  the C locals; \<open>adj_halflife_saliva\<close> and \<open>adj_halflife_urine\<close> are the locals
  \<open>halflife_saliva\<close> and \<open>halflife_urine\<close> after the flip-flop adjustment, and the one
  local \<open>accumulation_factor\<close>, assigned once per matrix, is two fields.
\<close>

record CalcResult =
  route_adj :: RouteParams
  single_conc_saliva :: real
  single_conc_urine :: real
  adj_halflife_saliva :: real
  adj_halflife_urine :: real
  elim_rate_saliva :: real
  elim_rate_urine :: real
  num_doses :: int
  r_factor_saliva :: real
  r_factor_urine :: real
  accumulation_factor_saliva :: real
  accumulation_factor_urine :: real
  total_conc_saliva :: real
  total_conc_urine :: real
  steady_conc_saliva :: real
  steady_conc_urine :: real
  buildup_saliva :: real
  buildup_urine :: real
  detection_time_saliva :: real
  detection_time_urine :: real
  time_s :: TimeParts
  time_u :: TimeParts

definition route_params_of :: "int \<Rightarrow> RouteParams" where
  "route_params_of route =
    \<lparr>bioavail = bioavailability (routes route), oral_fac = oral_factor (routes route),
     absorpt = absorption_rate (routes route)\<rparr>"

definition calculate_detection_time_on ::
  "Target \<Rightarrow> int \<Rightarrow> int \<Rightarrow> int \<Rightarrow> int \<Rightarrow> int \<Rightarrow> int \<Rightarrow> real \<Rightarrow> CalcResult" where
  "calculate_detection_time_on tg drug route dosage weight age metab duration =
    (let p = adjust_route_parameters drug route (route_params_of route);
         single = single_conc drug dosage weight p;
         hs = flip_flop (halflife_saliva (drugs drug)) (absorpt p);
         hu = flip_flop (halflife_urine (drugs drug)) (absorpt p);
         ks = elim_rate hs age metab;
         ku = elim_rate hu age metab;
         n = num_doses_of_on tg duration (dosing_interval (drugs drug));
         rs = r_factor ks (dosing_interval (drugs drug));
         ru = r_factor ku (dosing_interval (drugs drug));
         accs = accumulation_factor rs n;
         totals = single * accs;
         steadys = steady_conc single ks (dosing_interval (drugs drug));
         accu = accumulation_factor ru n;
         totalu = single * accu;
         steadyu = steady_conc single ku (dosing_interval (drugs drug));
         dts = detection_time totals (cutoff_saliva (drugs drug)) ks;
         dtu = detection_time totalu (cutoff_urine (drugs drug)) ku
     in \<lparr>route_adj = p,
         single_conc_saliva = single, single_conc_urine = single,
         adj_halflife_saliva = hs, adj_halflife_urine = hu,
         elim_rate_saliva = ks, elim_rate_urine = ku,
         num_doses = n,
         r_factor_saliva = rs, r_factor_urine = ru,
         accumulation_factor_saliva = accs, accumulation_factor_urine = accu,
         total_conc_saliva = totals, total_conc_urine = totalu,
         steady_conc_saliva = steadys, steady_conc_urine = steadyu,
         buildup_saliva = buildup totals steadys, buildup_urine = buildup totalu steadyu,
         detection_time_saliva = dts, detection_time_urine = dtu,
         time_s = decompose_time_on tg dts, time_u = decompose_time_on tg dtu\<rparr>)"

definition calculate_detection_time ::
  "int \<Rightarrow> int \<Rightarrow> int \<Rightarrow> int \<Rightarrow> int \<Rightarrow> int \<Rightarrow> real \<Rightarrow> CalcResult" where
  "calculate_detection_time = calculate_detection_time_on ia32"

subsection \<open>The concentration curve and its analysis line\<close>

text \<open>
  \<open>plot_concentration_curve\<close> fills the arrays \<open>time\<close> and \<open>conc\<close> (61 samples), tracks
  the maximum in \<open>cmax\<close>, raises \<open>cmax\<close> for the scaling of the chart, prints the chart and
  then the analysis. The rows of the chart do not enter the analysis and are not modelled;
  the analysis is returned as a value.
\<close>

definition curve_ka :: "real \<Rightarrow> real" where
  "curve_ka absorption_rate' =
    (let ka = 0.693 / absorption_rate' in if ka < 0.1 then 0.1 else ka)"

definition curve_tmax :: "real \<Rightarrow> real \<Rightarrow> real" where
  "curve_tmax duration thalf = max_float (duration + 8 * thalf) 24"

definition curve_dt :: "real \<Rightarrow> real \<Rightarrow> real" where
  "curve_dt duration thalf = curve_tmax duration thalf / 60"

text \<open>One pass of the inner loop: the contribution of dose \<open>dose_num\<close> added to \<open>c\<close>.\<close>

definition add_dose ::
  "real \<Rightarrow> real \<Rightarrow> real \<Rightarrow> real \<Rightarrow> real \<Rightarrow> nat \<Rightarrow> real \<Rightarrow> real" where
  "add_dose kelim dosing_interval' single_dose_conc absorption_rate' t dose_num c =
    (let dose_time = real dose_num * dosing_interval' in
     if t \<ge> dose_time then
       (let time_since_last_dose = t - dose_time;
            absorbed_conc =
              (if absorption_rate' < 0.5 then single_dose_conc
               else single_dose_conc *
                      (1 - exp (- curve_ka absorption_rate' * time_since_last_dose)));
            eliminated_conc = absorbed_conc * exp (- kelim * time_since_last_dose)
        in c + eliminated_conc)
     else c)"

text \<open>The value of \<open>conc[i]\<close> after the body of the outer loop, at time \<open>t = time[i]\<close>.\<close>

definition conc_at :: "real \<Rightarrow> real \<Rightarrow> real \<Rightarrow> real \<Rightarrow> real \<Rightarrow> real \<Rightarrow> real" where
  "conc_at kelim duration dosing_interval' single_dose_conc absorption_rate' t =
    (let c = fold (add_dose kelim dosing_interval' single_dose_conc absorption_rate' t)
                  [0 ..< nat (num_doses_of duration dosing_interval')] 0
     in if t > duration then c * exp (- kelim * (t - duration)) else c)"

definition curve_time :: "real \<Rightarrow> real \<Rightarrow> real list" where
  "curve_time duration thalf = map (\<lambda>i. real i * curve_dt duration thalf) [0 ..< 61]"

definition curve_conc :: "real \<Rightarrow> real \<Rightarrow> real \<Rightarrow> real \<Rightarrow> real \<Rightarrow> real \<Rightarrow> real list" where
  "curve_conc kelim thalf duration dosing_interval' single_dose_conc absorption_rate' =
    map (conc_at kelim duration dosing_interval' single_dose_conc absorption_rate')
        (curve_time duration thalf)"

text \<open>\<open>cmax\<close> as the sampling loop leaves it: the largest sample, from 0.\<close>

definition track_max :: "real list \<Rightarrow> real" where
  "track_max conc = fold (\<lambda>c cmax. if c > cmax then c else cmax) conc 0"

text \<open>\<open>cmax\<close> after the two statements under "Ensure reasonable scaling".\<close>

definition scale_cmax :: "real \<Rightarrow> real \<Rightarrow> real" where
  "scale_cmax cutoff cmax =
    (let cmax1 = (if cmax < cutoff * 2 then cutoff * 2 else cmax)
     in if cmax1 < 1 then 1 else cmax1)"

text \<open>
  The loop \<open>for (i = 60; i >= 0; i--)\<close> of the analysis, entered at index \<open>i\<close>: the time
  of the latest sample above the cutoff, and the initial 0 when there is none.
\<close>

fun last_above :: "real list \<Rightarrow> real list \<Rightarrow> real \<Rightarrow> nat \<Rightarrow> real" where
  "last_above conc time cutoff 0 = (if conc ! 0 > cutoff then time ! 0 else 0)"
| "last_above conc time cutoff (Suc i) =
    (if conc ! Suc i > cutoff then time ! Suc i else last_above conc time cutoff i)"

text \<open>
  The two messages of the analysis: the time to non-detection with the peak that is
  printed beside it, or the peak below the cutoff.
\<close>

datatype Analysis = TimeToNonDetection real real | PeakBelowCutoff real

definition curve_analysis :: "real list \<Rightarrow> real list \<Rightarrow> real \<Rightarrow> Analysis" where
  "curve_analysis conc time cutoff =
    (let cmax = scale_cmax cutoff (track_max conc) in
     if cmax > cutoff then TimeToNonDetection (last_above conc time cutoff 60) cmax
     else PeakBelowCutoff cmax)"

text \<open>
  The first parameter \<open>c0\<close> of the C function is not read by its body. The parameters
  \<open>dosing_interval\<close> and \<open>absorption_rate\<close> carry a prime here, apart from the table fields
  of the same names.
\<close>

definition plot_concentration_curve ::
  "real \<Rightarrow> real \<Rightarrow> real \<Rightarrow> real \<Rightarrow> real \<Rightarrow> real \<Rightarrow> real \<Rightarrow> real \<Rightarrow> Analysis" where
  "plot_concentration_curve c0 kelim cutoff thalf duration dosing_interval' single_dose_conc
      absorption_rate' =
    curve_analysis
      (curve_conc kelim thalf duration dosing_interval' single_dose_conc absorption_rate')
      (curve_time duration thalf) cutoff"

text \<open>The call of the curve in \<open>calculate_detection_time\<close>, on the saliva quantities.\<close>

definition calculate_curve ::
  "int \<Rightarrow> int \<Rightarrow> int \<Rightarrow> int \<Rightarrow> int \<Rightarrow> int \<Rightarrow> real \<Rightarrow> Analysis" where
  "calculate_curve drug route dosage weight age metab duration =
    (let res = calculate_detection_time drug route dosage weight age metab duration in
     plot_concentration_curve (total_conc_saliva res) (elim_rate_saliva res)
       (cutoff_saliva (drugs drug)) (adj_halflife_saliva res) duration
       (dosing_interval (drugs drug)) (single_conc_saliva res) (absorpt (route_adj res)))"

subsection \<open>The synthetic spectrum\<close>

abbreviation (input) MAX_PEAKS :: nat where "MAX_PEAKS \<equiv> 20"
abbreviation (input) SPECTRUM_WIDTH :: nat where "SPECTRUM_WIDTH \<equiv> 121"
abbreviation (input) PLOT_HEIGHT :: int where "PLOT_HEIGHT \<equiv> 50"

text \<open>The three arrays of \<open>NMRData\<close> are lists of \<open>MAX_PEAKS\<close> entries.\<close>

record NMRData =
  shifts :: "real list"
  intensities :: "real list"
  widths :: "real list"
  num_peaks :: int

text \<open>
  The peak table of \<open>generate_nmr_data\<close>: the number of peaks, the shifts and the
  intensities the \<open>switch\<close> assigns, in array order.
\<close>

definition peak_table :: "int \<Rightarrow> int \<times> real list \<times> real list" where
  "peak_table drug =
    (if drug = DRUG_FENTANYL then (4, [7.2, 3.8, 2.4, 1.2], [100, 150, 200, 120])
     else if drug = DRUG_AMPHETAMINE \<or> drug = DRUG_METHAMPHETAMINE \<or>
             drug = DRUG_DEXTROAMPHETAMINE then
       (if drug \<noteq> DRUG_METHAMPHETAMINE then 3 else 4,
        [7.3, 2.8, 3.1, 1.1],
        [100, 80, 60, if drug = DRUG_METHAMPHETAMINE then 90 else 0])
     else if drug = DRUG_MORPHINE \<or> drug = DRUG_HYDROMORPHONE \<or> drug = DRUG_OXYCODONE \<or>
             drug = DRUG_HYDROCODONE \<or> drug = DRUG_CODEINE \<or> drug = DRUG_DIAMORPHINE then
       (5, [6.8, 6.5, 4.2, 3.0, 2.1], [50, 50, 60, 90, 100])
     else if drug = DRUG_KETAMINE then (3, [7.5, 4.1, 2.5], [80, 60, 100])
     else if drug = DRUG_LSD then
       (6, [8.1, 7.4, 7.0, 6.8, 4.0, 1.3], [30, 50, 50, 50, 60, 90])
     else (3, [7.0, 3.5, 1.5], [100, 80, 120]))"

text \<open>
  \<open>generate_nmr_data\<close> clears the arrays (shift 0, intensity 0, width 0.1), writes the
  table of the drug, and draws one \<open>rand()\<close> per peak for its width; \<open>rnd i\<close> is the
  value of the call for peak \<open>i\<close>.
\<close>

definition pad :: "real \<Rightarrow> real list \<Rightarrow> real list" where
  "pad x xs = xs @ replicate (MAX_PEAKS - length xs) x"

definition generate_nmr_data :: "int \<Rightarrow> (nat \<Rightarrow> int) \<Rightarrow> NMRData" where
  "generate_nmr_data drug rnd =
    (case peak_table drug of (n, sh, inten) \<Rightarrow>
      \<lparr>shifts = pad 0 sh, intensities = pad 0 inten,
       widths = pad 0.1 (map (\<lambda>i. 0.08 + real_of_int (rnd i smod 20) / 1000) [0 ..< nat n]),
       num_peaks = n\<rparr>)"

definition spectrum_freq :: "real list" where
  "spectrum_freq = map (\<lambda>i. 12 - real i * 0.1) [0 ..< SPECTRUM_WIDTH]"

text \<open>One pass of the loop "Add peaks to spectrum", for peak \<open>j\<close>.\<close>

definition add_peak :: "real \<Rightarrow> NMRData \<Rightarrow> nat \<Rightarrow> real list \<Rightarrow> real list" where
  "add_peak concentration nmr_data j spectrum =
    (if shifts nmr_data ! j \<ge> 0 \<and> shifts nmr_data ! j \<le> 12 then
       (let width = max_float 0.05 (widths nmr_data ! j);
            intensity = intensities nmr_data ! j * concentration / 100
        in map (\<lambda>(f, s). s + intensity / (1 + (\<bar>f - shifts nmr_data ! j\<bar> / width)\<^sup>2))
               (zip spectrum_freq spectrum))
     else spectrum)"

definition nmr_spectrum :: "real \<Rightarrow> NMRData \<Rightarrow> real list" where
  "nmr_spectrum concentration nmr_data =
    fold (add_peak concentration nmr_data) [0 ..< nat (num_peaks nmr_data)]
         (replicate SPECTRUM_WIDTH 0)"

definition nmr_spec_max :: "real list \<Rightarrow> real" where
  "nmr_spec_max spectrum =
    (let spec_max = fold (\<lambda>s m. max_float m s) spectrum 0
     in if spec_max \<le> 0 then 1 else spec_max)"

text \<open>The passes over \<open>plot_line\<close> for one row, in the order of the source.\<close>

definition grid_rows :: "int \<Rightarrow> string \<Rightarrow> string" where
  "grid_rows line plot_line =
    (if line smod 10 = 0 then map (\<lambda>c. if c = CHR '' '' then CHR ''-'' else c) plot_line
     else if line smod 5 = 0 then map (\<lambda>c. if c = CHR '' '' then CHR ''.'' else c) plot_line
     else plot_line)"

definition mark_peaks :: "real list \<Rightarrow> real \<Rightarrow> string \<Rightarrow> string" where
  "mark_peaks spectrum thresh plot_line =
    map (\<lambda>(s, c). if s \<ge> thresh then CHR ''*'' else c) (zip spectrum plot_line)"

definition major_grid :: "string \<Rightarrow> string" where
  "major_grid plot_line =
    fold (\<lambda>i l. if l ! i \<noteq> CHR ''*'' then l[i := CHR ''|''] else l)
         [0, 20, 40, 60, 80, 100, 120] plot_line"

definition minor_grid :: "string \<Rightarrow> string" where
  "minor_grid plot_line =
    fold (\<lambda>i l. if i mod 20 \<noteq> 0 \<and> l ! i \<noteq> CHR ''*'' \<and> l ! i \<noteq> CHR ''|''
                 then l[i := CHR ''+''] else l)
         [10, 20, 30, 40, 50, 60, 70, 80, 90, 100, 110, 120] plot_line"

definition nmr_row :: "real list \<Rightarrow> real \<Rightarrow> int \<Rightarrow> string" where
  "nmr_row spectrum spec_max line =
    (let thresh = spec_max * real_of_int line / real_of_int PLOT_HEIGHT
     in minor_grid (major_grid (mark_peaks spectrum thresh
          (grid_rows line (replicate SPECTRUM_WIDTH (CHR '' ''))))))"

text \<open>
  What \<open>nmr_plot\<close> prints that depends on the spectrum: the maximum used for scaling and
  the 50 rows, from line 50 down to line 1.
\<close>

record NMRPlot =
  plot_spec_max :: real
  plot_rows :: "string list"

definition nmr_plot :: "int \<Rightarrow> real \<Rightarrow> NMRData \<Rightarrow> NMRPlot" where
  "nmr_plot drug concentration nmr_data =
    (let spectrum = nmr_spectrum concentration nmr_data;
         spec_max = nmr_spec_max spectrum
     in \<lparr>plot_spec_max = spec_max,
         plot_rows = map (nmr_row spectrum spec_max) (rev [1 .. PLOT_HEIGHT])\<rparr>)"

subsection \<open>Name resolution and the main program\<close>

text \<open>
  A C string is the list of its characters before the terminating NUL. \<open>toupper\<close> (in
  the C locale) maps the 26 lower-case letters and leaves every other character.
\<close>

definition c_toupper :: "char \<Rightarrow> char" where
  "c_toupper c =
    (let n = (of_char c :: nat) in if 97 \<le> n \<and> n \<le> 122 then char_of (n - 32) else c)"

definition str_upper :: "string \<Rightarrow> string" where
  "str_upper str = map c_toupper str"

text \<open>
  \<open>strcmp\<close>: zero for equal strings, otherwise the difference of the first two
  characters that differ (as unsigned values), the end of a string counting as 0. The
  program only tests the result against 0.
\<close>

fun c_strcmp :: "string \<Rightarrow> string \<Rightarrow> int" where
  "c_strcmp [] [] = 0"
| "c_strcmp [] (y # ys) = - int (of_char y)"
| "c_strcmp (x # xs) [] = int (of_char x)"
| "c_strcmp (x # xs) (y # ys) =
    (if x = y then c_strcmp xs ys else int (of_char x) - int (of_char y))"

definition str_compare_upper :: "string \<Rightarrow> string \<Rightarrow> int" where
  "str_compare_upper str1 str2 =
    c_strcmp (map c_toupper (take 99 str1)) (map c_toupper (take 99 str2))"

text \<open>
  \<open>buffer\<close> is what \<open>fgets\<close> stored in \<open>input\<close>: one line of at most 49 characters,
  with its newline when the line was short enough. The first statement cuts it at the
  newline.
\<close>

definition strip_newline :: "string \<Rightarrow> string" where
  "strip_newline buffer = takeWhile (\<lambda>c. c \<noteq> CHR 0x0A) buffer"

definition drug_alternatives :: "string \<Rightarrow> int" where
  "drug_alternatives input =
    (if str_compare_upper input ''MEPERIDINE'' = 0 then DRUG_PETHIDINE
     else if str_compare_upper input ''ETHANOL'' = 0 then DRUG_ALCOHOL
     else if str_compare_upper input ''PROPOXYPHENE'' = 0 then DRUG_DEXTROPROPOXYPHENE
     else if str_compare_upper input ''HEROIN'' = 0 then DRUG_DIAMORPHINE
     else 0)"

definition get_drug_selection :: "string \<Rightarrow> int" where
  "get_drug_selection buffer =
    (let input = str_upper (strip_newline buffer) in
     case find (\<lambda>i. str_compare_upper input (name (drugs i)) = 0) [1 .. NUM_DRUGS] of
       Some i \<Rightarrow> i
     | None \<Rightarrow> drug_alternatives input)"

text \<open>The alternatives of \<open>get_route_selection\<close>, in the order they are tested.\<close>

definition route_alternatives_table :: "(string \<times> int) list" where
  "route_alternatives_table =
    [(''IV'', ROUTE_INTRAVENOUS), (''I.V.'', ROUTE_INTRAVENOUS), (''I.V'', ROUTE_INTRAVENOUS),
     (''INJECTION'', ROUTE_INTRAVENOUS),
     (''IM'', ROUTE_INTRAMUSCULAR), (''I.M.'', ROUTE_INTRAMUSCULAR),
     (''I.M'', ROUTE_INTRAMUSCULAR), (''MUSCLE'', ROUTE_INTRAMUSCULAR),
     (''SC'', ROUTE_SUBCUTANEOUS), (''SQ'', ROUTE_SUBCUTANEOUS), (''SUBQ'', ROUTE_SUBCUTANEOUS),
     (''S.C.'', ROUTE_SUBCUTANEOUS), (''SUB-Q'', ROUTE_SUBCUTANEOUS),
     (''IN'', ROUTE_INTRANASAL), (''NASAL'', ROUTE_INTRANASAL), (''SNORT'', ROUTE_INTRANASAL),
     (''SNORTING'', ROUTE_INTRANASAL), (''NOSE'', ROUTE_INTRANASAL),
     (''INH'', ROUTE_INHALATION), (''INHALED'', ROUTE_INHALATION),
     (''SMOKING'', ROUTE_INHALATION), (''SMOKE'', ROUTE_INHALATION),
     (''VAPING'', ROUTE_INHALATION), (''VAPE'', ROUTE_INHALATION),
     (''PO'', ROUTE_ORAL), (''P.O.'', ROUTE_ORAL), (''MOUTH'', ROUTE_ORAL),
     (''SWALLOW'', ROUTE_ORAL), (''PILL'', ROUTE_ORAL), (''TABLET'', ROUTE_ORAL),
     (''SL'', ROUTE_SUBLINGUAL), (''S.L.'', ROUTE_SUBLINGUAL),
     (''UNDER TONGUE'', ROUTE_SUBLINGUAL), (''SUB'', ROUTE_SUBLINGUAL),
     (''TD'', ROUTE_TRANSDERMAL), (''PATCH'', ROUTE_TRANSDERMAL), (''SKIN'', ROUTE_TRANSDERMAL),
     (''PR'', ROUTE_RECTAL), (''P.R.'', ROUTE_RECTAL), (''RECTAL'', ROUTE_RECTAL),
     (''SUPPOSITORY'', ROUTE_RECTAL),
     (''BUC'', ROUTE_BUCCAL), (''CHEEK'', ROUTE_BUCCAL),
     (''TOP'', ROUTE_TOPICAL), (''CREAM'', ROUTE_TOPICAL), (''GEL'', ROUTE_TOPICAL)]"

text \<open>The chain of \<open>if (str_compare_upper(input, s) == 0) return r;\<close> over a table.\<close>

fun first_match :: "string \<Rightarrow> (string \<times> int) list \<Rightarrow> int" where
  "first_match input [] = 0"
| "first_match input ((s, r) # rest) =
    (if str_compare_upper input s = 0 then r else first_match input rest)"

definition get_route_selection :: "string \<Rightarrow> int" where
  "get_route_selection buffer =
    (let input = str_upper (strip_newline buffer) in
     case find (\<lambda>i. str_compare_upper input (route_name (routes i)) = 0) [1 .. NUM_ROUTES] of
       Some i \<Rightarrow> i
     | None \<Rightarrow> first_match input route_alternatives_table)"

text \<open>
  The input of one run: the two lines read by \<open>fgets\<close>, the five numbers read by
  \<open>scanf\<close>, the answer to the spectrum question and the values of \<open>rand()\<close>.
\<close>

record ProgramInput =
  drug_line :: string
  route_line :: string
  in_dosage :: int
  in_weight :: int
  in_age :: int
  in_metab :: int
  in_duration :: real
  in_answer :: char
  in_rand :: "nat \<Rightarrow> int"

text \<open>
  What \<open>main\<close> did: it printed a rejection and returned 1, or it ran
  \<open>calculate_detection_time\<close> (its quantities and the analysis of its curve), drew the
  spectrum when asked to, and returned 0.
\<close>

datatype Outcome =
  InvalidDrug
| InvalidRoute
| Calculated CalcResult Analysis "NMRPlot option"

definition exit_status :: "Outcome \<Rightarrow> int" where
  "exit_status out = (case out of Calculated res an nmr \<Rightarrow> 0 | _ \<Rightarrow> 1)"

definition main_program :: "ProgramInput \<Rightarrow> Outcome" where
  "main_program inp =
    (let drug = get_drug_selection (drug_line inp) in
     if drug = 0 then InvalidDrug
     else
       (let route = get_route_selection (route_line inp) in
        if route = 0 then InvalidRoute
        else
          Calculated
            (calculate_detection_time drug route (in_dosage inp) (in_weight inp)
               (in_age inp) (in_metab inp) (in_duration inp))
            (calculate_curve drug route (in_dosage inp) (in_weight inp)
               (in_age inp) (in_metab inp) (in_duration inp))
            (if c_toupper (in_answer inp) = CHR ''Y''
             then Some (nmr_plot drug (real_of_int (in_dosage inp))
                          (generate_nmr_data drug (in_rand inp)))
             else None)))"

subsection \<open>Valid identifiers\<close>

text \<open>The identifiers \<open>main\<close> passes on: a drug of the table and a route of the table.\<close>

definition valid_drug :: "int \<Rightarrow> bool" where
  "valid_drug drug = (1 \<le> drug \<and> drug \<le> NUM_DRUGS)"

definition valid_route :: "int \<Rightarrow> bool" where
  "valid_route route = (1 \<le> route \<and> route \<le> NUM_ROUTES)"

subsection \<open>The documented example run\<close>

text \<open>
  The run of the README: diamorphine, intravenous, 1000 mg, 76 kg, age 28, fast
  metabolism (3), 48 hours of use.
\<close>

definition example_run :: CalcResult where
  "example_run =
     calculate_detection_time DRUG_DIAMORPHINE ROUTE_INTRAVENOUS 1000 76 28 3 48"

section \<open>Verification\<close>

subsection \<open>Integer division and truncation on non-negative values\<close>

lemma sdiv_nonneg: "0 \<le> (a::int) \<Longrightarrow> 0 < b \<Longrightarrow> a sdiv b = a div b"
  by (simp add: signed_divide_int_def sgn_if)


subsection \<open>The reference tables hold positive constants\<close>

lemma valid_drug_cases:
  "valid_drug d \<Longrightarrow> d \<in> {1,2,3,4,5,6,7,8,9,10,11,12,13,14,15,16,17,18,19,20,21,22,23,24}"
  unfolding valid_drug_def by (simp, presburger)

lemma valid_route_cases:
  "valid_route r \<Longrightarrow> r \<in> {1,2,3,4,5,6,7,8,9,10,11}"
  unfolding valid_route_def by (simp, presburger)

lemma drugs_pos:
  assumes "valid_drug d"
  shows "0 < halflife_saliva (drugs d)" "0 < halflife_urine (drugs d)"
        "0 < cutoff_saliva (drugs d)" "0 < cutoff_urine (drugs d)"
        "0 < dosing_interval (drugs d)"
  using valid_drug_cases [OF assms] by (auto simp: drugs_def)

lemma routes_pos:
  assumes "valid_route r"
  shows "0 < bioavailability (routes r)" "0 < absorption_rate (routes r)"
        "0 < oral_factor (routes r)"
  using valid_route_cases [OF assms] by (auto simp: routes_def)

subsection \<open>Route adjustment keeps the parameters positive\<close>

lemmas adj_defs = adj_alcohol_def adj_fentanyl_def adj_stimulants_def adj_opioids_def
  adj_psychedelics_def adj_benzodiazepines_def adj_ketamine_def adj_ghb_def adj_topical_def

lemma adj_step_pos:
  assumes "0 < bioavail p \<and> 0 < oral_fac p \<and> 0 < absorpt p"
  shows "0 < bioavail (adj_alcohol d r p) \<and> 0 < oral_fac (adj_alcohol d r p) \<and> 0 < absorpt (adj_alcohol d r p)"
    and "0 < bioavail (adj_fentanyl d r p) \<and> 0 < oral_fac (adj_fentanyl d r p) \<and> 0 < absorpt (adj_fentanyl d r p)"
    and "0 < bioavail (adj_stimulants d r p) \<and> 0 < oral_fac (adj_stimulants d r p) \<and> 0 < absorpt (adj_stimulants d r p)"
    and "0 < bioavail (adj_opioids d r p) \<and> 0 < oral_fac (adj_opioids d r p) \<and> 0 < absorpt (adj_opioids d r p)"
    and "0 < bioavail (adj_psychedelics d r p) \<and> 0 < oral_fac (adj_psychedelics d r p) \<and> 0 < absorpt (adj_psychedelics d r p)"
    and "0 < bioavail (adj_benzodiazepines d r p) \<and> 0 < oral_fac (adj_benzodiazepines d r p) \<and> 0 < absorpt (adj_benzodiazepines d r p)"
    and "0 < bioavail (adj_ketamine d r p) \<and> 0 < oral_fac (adj_ketamine d r p) \<and> 0 < absorpt (adj_ketamine d r p)"
    and "0 < bioavail (adj_ghb d r p) \<and> 0 < oral_fac (adj_ghb d r p) \<and> 0 < absorpt (adj_ghb d r p)"
    and "0 < bioavail (adj_topical d r p) \<and> 0 < oral_fac (adj_topical d r p) \<and> 0 < absorpt (adj_topical d r p)"
  using assms by (simp_all add: adj_defs Let_def)

lemma adjust_pos:
  assumes "0 < bioavail p \<and> 0 < oral_fac p \<and> 0 < absorpt p"
  shows "0 < bioavail (adjust_route_parameters d r p) \<and>
         0 < oral_fac (adjust_route_parameters d r p) \<and>
         0 < absorpt (adjust_route_parameters d r p)"
  unfolding adjust_route_parameters_def
  by (intro adj_step_pos assms)

lemma route_adj_pos:
  assumes "valid_route r"
  shows "0 < bioavail (adjust_route_parameters d r (route_params_of r))"
        "0 < oral_fac (adjust_route_parameters d r (route_params_of r))"
        "0 < absorpt (adjust_route_parameters d r (route_params_of r))"
  using adjust_pos [of "route_params_of r" d r] routes_pos [OF assms]
  by (simp_all add: route_params_of_def)

lemma flip_flop_pos: "0 < h \<Longrightarrow> 0 < a \<Longrightarrow> 0 < flip_flop h a"
  by (simp add: flip_flop_def add_pos_pos)

lemma age_factor_pos: "0 < age_factor age"
  by (simp add: age_factor_def)

lemma metab_factor_pos: "0 < metab_factor metab"
  by (simp add: metab_factor_def)

lemma elim_rate_pos: "0 < h \<Longrightarrow> 0 < elim_rate h age metab"
  by (simp add: elim_rate_def age_factor_pos metab_factor_pos)

lemma r_factor_range: "0 < k \<Longrightarrow> 0 < i \<Longrightarrow> 0 < r_factor k i \<and> r_factor k i < 1"
  by (simp add: r_factor_def)

subsection \<open>Dose count and accumulation factor\<close>

lemma c_trunc_floor: "0 \<le> x \<Longrightarrow> c_trunc x = \<lfloor>x\<rfloor>"
  by (simp add: c_trunc_def)

lemma c_trunc_mono: "x \<le> y \<Longrightarrow> c_trunc x \<le> c_trunc y"
  unfolding c_trunc_def
  by (auto intro: floor_mono ceiling_mono) (meson ceiling_le_zero floor_mono le_floor_iff order_trans zero_le_floor linear)

text \<open>Inside the range of the \<open>int\<close> the cast and the addition are the exact ones.\<close>

lemma c_int_cast_in_range:
  "- int_max tg - 1 \<le> c_trunc x \<Longrightarrow> c_trunc x \<le> int_max tg \<Longrightarrow> c_int_cast tg x = c_trunc x"
  by (simp add: c_int_cast_def)

lemma c_int_cast_out_of_range:
  "int_max tg < c_trunc x \<Longrightarrow> c_int_cast tg x = cast_overflow tg x"
  by (simp add: c_int_cast_def)

lemma c_int_add_in_range:
  assumes "- int_max tg - 1 \<le> a + b" "a + b \<le> int_max tg"
  shows "c_int_add tg a b = a + b"
proof -
  have "0 \<le> a + b + (int_max tg + 1)" using assms(1) by simp
  moreover have "a + b + (int_max tg + 1) < 2 * (int_max tg + 1)" using assms(2) by simp
  ultimately have "(a + b + (int_max tg + 1)) mod (2 * (int_max tg + 1)) = a + b + (int_max tg + 1)"
    by (rule mod_pos_pos_trivial)
  then show ?thesis by (simp add: c_int_add_def)
qed

lemma num_doses_floor:
  assumes "0 \<le> duration" "0 < interval" "\<lfloor>duration / interval\<rfloor> + 1 \<le> int_max tg"
  shows "num_doses_of_on tg duration interval = \<lfloor>duration / interval\<rfloor> + 1"
proof -
  have q: "0 \<le> duration / interval" using assms(1,2) by simp
  have t: "c_trunc (duration / interval) = \<lfloor>duration / interval\<rfloor>"
    using q by (rule c_trunc_floor)
  have f0: "0 \<le> \<lfloor>duration / interval\<rfloor>" using q by simp
  have lo: "- int_max tg - 1 \<le> c_trunc (duration / interval)"
    using f0 assms(3) unfolding t by linarith
  have hi: "c_trunc (duration / interval) \<le> int_max tg"
    using assms(3) unfolding t by linarith
  have "c_int_cast tg (duration / interval) = c_trunc (duration / interval)"
    using lo hi by (rule c_int_cast_in_range)
  then have c: "c_int_cast tg (duration / interval) = \<lfloor>duration / interval\<rfloor>"
    by (simp only: t)
  have "c_int_add tg \<lfloor>duration / interval\<rfloor> 1 = \<lfloor>duration / interval\<rfloor> + 1"
    using f0 assms(3) by (intro c_int_add_in_range) linarith+
  then show ?thesis by (simp add: num_doses_of_on_def c)
qed

lemma num_doses_ge_1:
  assumes "0 \<le> duration" "0 < interval" "\<lfloor>duration / interval\<rfloor> + 1 \<le> int_max tg"
  shows "1 \<le> num_doses_of_on tg duration interval"
  using assms by (simp add: num_doses_floor)

lemma num_doses_mono:
  assumes "0 \<le> d1" "d1 \<le> d2" "0 < interval" "\<lfloor>d2 / interval\<rfloor> + 1 \<le> int_max tg"
  shows "num_doses_of_on tg d1 interval \<le> num_doses_of_on tg d2 interval"
proof -
  have m: "\<lfloor>d1 / interval\<rfloor> \<le> \<lfloor>d2 / interval\<rfloor>"
    using assms(2,3) by (simp add: floor_mono divide_right_mono)
  have d2: "0 \<le> d2" using assms(1,2) by simp
  have "\<lfloor>d1 / interval\<rfloor> + 1 \<le> int_max tg" using m assms(4) by simp
  then show ?thesis
    using assms d2 m by (simp add: num_doses_floor)
qed

text \<open>The dose count of the 32-bit build where the cast is in range.\<close>

lemma num_doses_of_ia32:
  assumes "0 \<le> duration" "0 < interval" "\<lfloor>duration / interval\<rfloor> + 1 \<le> 2147483647"
  shows "num_doses_of duration interval = \<lfloor>duration / interval\<rfloor> + 1"
  unfolding num_doses_of_def using assms by (intro num_doses_floor) (simp_all add: ia32_def)

lemma c_pow_nonneg_exp: "0 \<le> n \<Longrightarrow> c_pow x n = x ^ nat n"
  by (simp add: c_pow_def)

lemma accumulation_nonneg:
  assumes "0 < r" "r < 1" "1 \<le> n"
  shows "0 < accumulation_factor r n"
proof (cases "\<bar>r - 1\<bar> < 0.001")
  case True
  then show ?thesis using assms by (simp add: accumulation_factor_def)
next
  case False
  have "r ^ nat n < 1" using assms power_strict_decreasing [of 0 "nat n" r] by simp
  then show ?thesis using assms False
    by (simp add: accumulation_factor_def c_pow_nonneg_exp)
qed

lemma accumulation_mono:
  assumes "0 < r" "r < 1" "1 \<le> n" "n \<le> n'"
  shows "accumulation_factor r n \<le> accumulation_factor r n'"
proof (cases "\<bar>r - 1\<bar> < 0.001")
  case True
  then show ?thesis using assms by (simp add: accumulation_factor_def)
next
  case False
  have "r ^ nat n' \<le> r ^ nat n" using assms by (intro power_decreasing) auto
  then have "(1 - r ^ nat n) / (1 - r) \<le> (1 - r ^ nat n') / (1 - r)"
    using assms by (intro divide_right_mono) auto
  then show ?thesis using assms False
    by (simp add: accumulation_factor_def c_pow_nonneg_exp)
qed

subsection \<open>The fields of the result\<close>

lemma calc_on_fields:
  "route_adj (calculate_detection_time_on tg d r ds w a m du) =
     adjust_route_parameters d r (route_params_of r)"
  "single_conc_saliva (calculate_detection_time_on tg d r ds w a m du) =
     single_conc d ds w (adjust_route_parameters d r (route_params_of r))"
  "single_conc_urine (calculate_detection_time_on tg d r ds w a m du) =
     single_conc d ds w (adjust_route_parameters d r (route_params_of r))"
  "adj_halflife_saliva (calculate_detection_time_on tg d r ds w a m du) =
     flip_flop (halflife_saliva (drugs d)) (absorpt (adjust_route_parameters d r (route_params_of r)))"
  "adj_halflife_urine (calculate_detection_time_on tg d r ds w a m du) =
     flip_flop (halflife_urine (drugs d)) (absorpt (adjust_route_parameters d r (route_params_of r)))"
  "elim_rate_saliva (calculate_detection_time_on tg d r ds w a m du) =
     elim_rate (adj_halflife_saliva (calculate_detection_time_on tg d r ds w a m du)) a m"
  "elim_rate_urine (calculate_detection_time_on tg d r ds w a m du) =
     elim_rate (adj_halflife_urine (calculate_detection_time_on tg d r ds w a m du)) a m"
  "num_doses (calculate_detection_time_on tg d r ds w a m du) =
     num_doses_of_on tg du (dosing_interval (drugs d))"
  "r_factor_saliva (calculate_detection_time_on tg d r ds w a m du) =
     r_factor (elim_rate_saliva (calculate_detection_time_on tg d r ds w a m du)) (dosing_interval (drugs d))"
  "r_factor_urine (calculate_detection_time_on tg d r ds w a m du) =
     r_factor (elim_rate_urine (calculate_detection_time_on tg d r ds w a m du)) (dosing_interval (drugs d))"
  "accumulation_factor_saliva (calculate_detection_time_on tg d r ds w a m du) =
     accumulation_factor (r_factor_saliva (calculate_detection_time_on tg d r ds w a m du))
       (num_doses (calculate_detection_time_on tg d r ds w a m du))"
  "accumulation_factor_urine (calculate_detection_time_on tg d r ds w a m du) =
     accumulation_factor (r_factor_urine (calculate_detection_time_on tg d r ds w a m du))
       (num_doses (calculate_detection_time_on tg d r ds w a m du))"
  "total_conc_saliva (calculate_detection_time_on tg d r ds w a m du) =
     single_conc_saliva (calculate_detection_time_on tg d r ds w a m du) *
     accumulation_factor_saliva (calculate_detection_time_on tg d r ds w a m du)"
  "total_conc_urine (calculate_detection_time_on tg d r ds w a m du) =
     single_conc_urine (calculate_detection_time_on tg d r ds w a m du) *
     accumulation_factor_urine (calculate_detection_time_on tg d r ds w a m du)"
  "steady_conc_saliva (calculate_detection_time_on tg d r ds w a m du) =
     steady_conc (single_conc_saliva (calculate_detection_time_on tg d r ds w a m du))
       (elim_rate_saliva (calculate_detection_time_on tg d r ds w a m du)) (dosing_interval (drugs d))"
  "steady_conc_urine (calculate_detection_time_on tg d r ds w a m du) =
     steady_conc (single_conc_urine (calculate_detection_time_on tg d r ds w a m du))
       (elim_rate_urine (calculate_detection_time_on tg d r ds w a m du)) (dosing_interval (drugs d))"
  "buildup_saliva (calculate_detection_time_on tg d r ds w a m du) =
     buildup (total_conc_saliva (calculate_detection_time_on tg d r ds w a m du))
       (steady_conc_saliva (calculate_detection_time_on tg d r ds w a m du))"
  "buildup_urine (calculate_detection_time_on tg d r ds w a m du) =
     buildup (total_conc_urine (calculate_detection_time_on tg d r ds w a m du))
       (steady_conc_urine (calculate_detection_time_on tg d r ds w a m du))"
  "detection_time_saliva (calculate_detection_time_on tg d r ds w a m du) =
     detection_time (total_conc_saliva (calculate_detection_time_on tg d r ds w a m du))
       (cutoff_saliva (drugs d)) (elim_rate_saliva (calculate_detection_time_on tg d r ds w a m du))"
  "detection_time_urine (calculate_detection_time_on tg d r ds w a m du) =
     detection_time (total_conc_urine (calculate_detection_time_on tg d r ds w a m du))
       (cutoff_urine (drugs d)) (elim_rate_urine (calculate_detection_time_on tg d r ds w a m du))"
  "time_s (calculate_detection_time_on tg d r ds w a m du) =
     decompose_time_on tg (detection_time_saliva (calculate_detection_time_on tg d r ds w a m du))"
  "time_u (calculate_detection_time_on tg d r ds w a m du) =
     decompose_time_on tg (detection_time_urine (calculate_detection_time_on tg d r ds w a m du))"
  by (simp_all add: calculate_detection_time_on_def Let_def)

lemma calc_on_elim_pos:
  assumes "valid_drug d" "valid_route r"
  shows "0 < elim_rate_saliva (calculate_detection_time_on tg d r ds w a m du)"
        "0 < elim_rate_urine (calculate_detection_time_on tg d r ds w a m du)"
  using drugs_pos [OF assms(1)] route_adj_pos [OF assms(2)]
  by (simp_all add: calc_on_fields elim_rate_pos flip_flop_pos)

lemma calc_r_range:
  assumes "valid_drug d" "valid_route r"
  shows "0 < r_factor_saliva (calculate_detection_time_on tg d r ds w a m du)"
        "r_factor_saliva (calculate_detection_time_on tg d r ds w a m du) < 1"
        "0 < r_factor_urine (calculate_detection_time_on tg d r ds w a m du)"
        "r_factor_urine (calculate_detection_time_on tg d r ds w a m du) < 1"
  using r_factor_range [OF calc_on_elim_pos(1) [OF assms] drugs_pos(5) [OF assms(1)]]
        r_factor_range [OF calc_on_elim_pos(2) [OF assms] drugs_pos(5) [OF assms(1)]]
  by (simp_all add: calc_on_fields(9,10))

lemma detection_time_nonneg:
  assumes "0 < cutoff" "0 < k"
  shows "0 \<le> detection_time tc cutoff k"
proof (cases "tc > cutoff")
  case True
  then have "1 < tc / cutoff" using assms by simp
  then have "0 < ln (tc / cutoff)" by simp
  then show ?thesis using True assms by (simp add: detection_time_def)
next
  case False
  then show ?thesis by (simp add: detection_time_def)
qed

lemma single_conc_nonneg:
  assumes "0 \<le> dosage" "0 < weight" "0 < bioavail p" "0 < oral_fac p"
  shows "0 \<le> single_conc drug dosage weight p"
  using assms by (simp add: single_conc_def fentanyl_dose_constant_def)

lemma single_conc_pos:
  assumes "0 < dosage" "0 < weight" "0 < bioavail p" "0 < oral_fac p"
  shows "0 < single_conc drug dosage weight p"
  using assms by (simp add: single_conc_def fentanyl_dose_constant_def)

lemma buildup_range:
  assumes "0 \<le> tc" "0 < sc"
  shows "0 \<le> buildup tc sc \<and> buildup tc sc \<le> 100 \<and>
         buildup tc sc = min 100 (tc / sc * 100)"
  using assms by (simp add: buildup_def Let_def min_def)

lemma steady_conc_pos:
  assumes "0 < single" "0 < k" "0 < i"
  shows "0 < steady_conc single k i"
  using assms by (simp add: steady_conc_def)

lemma calc_single_nonneg:
  assumes "valid_route r" "0 \<le> ds" "0 < w"
  shows "0 \<le> single_conc_saliva (calculate_detection_time_on tg d r ds w a m du)"
        "0 \<le> single_conc_urine (calculate_detection_time_on tg d r ds w a m du)"
  using route_adj_pos [OF assms(1)] assms(2,3)
  by (simp_all add: calc_on_fields(2,3) single_conc_nonneg)

lemma calc_single_pos:
  assumes "valid_route r" "0 < ds" "0 < w"
  shows "0 < single_conc_saliva (calculate_detection_time_on tg d r ds w a m du)"
        "0 < single_conc_urine (calculate_detection_time_on tg d r ds w a m du)"
  using route_adj_pos [OF assms(1)] assms(2,3)
  by (simp_all add: calc_on_fields(2,3) single_conc_pos)

lemma calc_num_doses_ge_1:
  assumes "valid_drug d" "0 \<le> du"
      and "\<lfloor>du / dosing_interval (drugs d)\<rfloor> + 1 \<le> int_max tg"
  shows "1 \<le> num_doses (calculate_detection_time_on tg d r ds w a m du)"
  using drugs_pos(5) [OF assms(1)] assms(2,3) by (simp add: calc_on_fields(8) num_doses_ge_1)

lemma calc_accum_pos:
  assumes "valid_drug d" "valid_route r" "0 \<le> du"
      and "\<lfloor>du / dosing_interval (drugs d)\<rfloor> + 1 \<le> int_max tg"
  shows "0 < accumulation_factor_saliva (calculate_detection_time_on tg d r ds w a m du)"
        "0 < accumulation_factor_urine (calculate_detection_time_on tg d r ds w a m du)"
  using calc_r_range [OF assms(1,2)] calc_num_doses_ge_1 [OF assms(1,3,4)]
  by (simp_all add: calc_on_fields(11,12) accumulation_nonneg)

text \<open>A negative dose count gives a negative accumulation factor.\<close>

lemma accumulation_negative:
  assumes "0 < r" "r < 1" "n < 0"
  shows "accumulation_factor r n < 0"
proof (cases "\<bar>r - 1\<bar> < 0.001")
  case True
  then show ?thesis using assms by (simp add: accumulation_factor_def)
next
  case False
  have k: "0 < nat (- n)" using assms(3) by simp
  have p0: "0 < r ^ nat (- n)" using assms(1) by simp
  have p1: "r ^ nat (- n) < 1" using assms(1,2) k by (simp add: power_less_one_iff)
  have "1 < 1 / r ^ nat (- n)" using p0 p1 by simp
  then have "1 - c_pow r n < 0" using assms(3) by (simp add: c_pow_def)
  moreover have "0 < 1 - r" using assms(2) by simp
  ultimately have "(1 - c_pow r n) / (1 - r) < 0" by (rule divide_neg_pos)
  then show ?thesis using False by (simp add: accumulation_factor_def)
qed

text \<open>The same facts for the 32-bit build.\<close>

lemmas calc_fields =
  calc_on_fields [where tg = ia32,
    folded calculate_detection_time_def num_doses_of_def decompose_time_def]

lemmas calc_elim_pos =
  calc_on_elim_pos [where tg = ia32, folded calculate_detection_time_def]

lemmas calc_r_range32 =
  calc_r_range [where tg = ia32, folded calculate_detection_time_def]

lemmas calc_single_pos32 =
  calc_single_pos [where tg = ia32, folded calculate_detection_time_def]

subsection \<open>Detection-time solver\<close>

text \<open>
  C1. For every drug, route and input, and for each matrix (saliva and urine), the
  detection time is 0 when the total accumulated concentration is at most the cutoff, and
  \<open>ln (total / cutoff) / elimination rate\<close> otherwise; for a drug and a route of the
  tables it is never negative.
\<close>

theorem detection_time_solver:
  "(let res = calculate_detection_time drug route dosage weight age metab duration in
     detection_time_saliva res =
       (if total_conc_saliva res \<le> cutoff_saliva (drugs drug) then 0
        else ln (total_conc_saliva res / cutoff_saliva (drugs drug)) / elim_rate_saliva res) \<and>
     detection_time_urine res =
       (if total_conc_urine res \<le> cutoff_urine (drugs drug) then 0
        else ln (total_conc_urine res / cutoff_urine (drugs drug)) / elim_rate_urine res) \<and>
     (valid_drug drug \<and> valid_route route \<longrightarrow>
        0 \<le> detection_time_saliva res \<and> 0 \<le> detection_time_urine res))"
proof -
  let ?res = "calculate_detection_time drug route dosage weight age metab duration"
  have s: "detection_time_saliva ?res =
       (if total_conc_saliva ?res \<le> cutoff_saliva (drugs drug) then 0
        else ln (total_conc_saliva ?res / cutoff_saliva (drugs drug)) / elim_rate_saliva ?res)"
    unfolding calc_fields(19) by (simp add: detection_time_def)
  have u: "detection_time_urine ?res =
       (if total_conc_urine ?res \<le> cutoff_urine (drugs drug) then 0
        else ln (total_conc_urine ?res / cutoff_urine (drugs drug)) / elim_rate_urine ?res)"
    unfolding calc_fields(20) by (simp add: detection_time_def)
  have n: "0 \<le> detection_time_saliva ?res \<and> 0 \<le> detection_time_urine ?res"
    if "valid_drug drug" "valid_route route"
    unfolding calc_fields(19,20)
    using drugs_pos [OF that(1)] calc_elim_pos [OF that] by (simp add: detection_time_nonneg)
  show ?thesis unfolding Let_def using s u n by blast
qed

theorem detection_time_solver_witness:
  "valid_drug DRUG_DIAMORPHINE \<and> valid_route ROUTE_INTRAVENOUS \<and>
   0 \<le> detection_time_saliva (calculate_detection_time DRUG_DIAMORPHINE ROUTE_INTRAVENOUS 1000 76 28 3 48) \<and>
   0 \<le> detection_time_urine (calculate_detection_time DRUG_DIAMORPHINE ROUTE_INTRAVENOUS 1000 76 28 3 48)"
  using detection_time_solver [of DRUG_DIAMORPHINE ROUTE_INTRAVENOUS 1000 76 28 3 48]
  by (simp add: Let_def valid_drug_def valid_route_def)

subsection \<open>Dose-response calculator\<close>

text \<open>
  C3. With a positive weight, the single dose concentration (of both matrices) is
  \<open>dosage * oral factor * bioavailability / weight\<close> on the adjusted route parameters,
  except that for fentanyl the dosage is replaced by the constant 1000 (so any two dosages
  give the same value) and for alcohol the generic value is multiplied by 0.5.
\<close>

theorem dose_response:
  assumes "0 < weight"
  shows
  "(let p = adjust_route_parameters drug route (route_params_of route);
        res = calculate_detection_time drug route dosage weight age metab duration in
     single_conc_saliva res =
       (if drug = DRUG_FENTANYL then
          1000 * oral_fac p * bioavail p / real_of_int weight
        else if drug = DRUG_ALCOHOL then
          0.5 * (real_of_int dosage * oral_fac p * bioavail p / real_of_int weight)
        else real_of_int dosage * oral_fac p * bioavail p / real_of_int weight) \<and>
     single_conc_urine res = single_conc_saliva res \<and>
     (drug = DRUG_FENTANYL \<longrightarrow>
        single_conc_saliva
          (calculate_detection_time drug route dosage' weight age metab duration) =
        single_conc_saliva res))"
  by (simp add: Let_def calc_fields(2,3) single_conc_def fentanyl_dose_constant_def)

theorem dose_response_witness:
  "(0::int) < 76 \<and>
   single_conc_saliva (calculate_detection_time DRUG_DIAMORPHINE ROUTE_INTRAVENOUS 1000 76 28 3 48)
     = 1000 * 0.08 * 1 / 76 \<and>
   single_conc_saliva (calculate_detection_time DRUG_FENTANYL ROUTE_ORAL 5 76 28 3 48)
     = single_conc_saliva (calculate_detection_time DRUG_FENTANYL ROUTE_ORAL 1000 76 28 3 48)"
  using dose_response [of 76 DRUG_DIAMORPHINE ROUTE_INTRAVENOUS 1000 28 3 48 1000]
        dose_response [of 76 DRUG_FENTANYL ROUTE_ORAL 1000 28 3 48 5]
  by (simp add: Let_def adjust_route_parameters_def route_params_of_def routes_def adj_defs)

subsection \<open>Accumulation engine\<close>

text \<open>
  The run used against the statements on the duration: the 32-bit build, diamorphine
  (dosing interval 4 hours), a duration of use of 10000000000 hours. The quotient
  2500000000 is above the largest \<open>int\<close>, the cast gives -2147483648, and the program
  counts -2147483647 doses. With a negative dose count the accumulation factor is
  negative in both matrices.
\<close>

lemma long_use_num_doses:
  "num_doses (calculate_detection_time DRUG_DIAMORPHINE r ds w a m 10000000000) = - 2147483647"
  by (simp add: calc_fields(8) num_doses_of_def num_doses_of_on_def c_int_cast_def
        c_int_add_def ia32_def c_trunc_def drugs_def)

lemma long_use_accum_negative:
  assumes "valid_route r"
  shows "accumulation_factor_saliva
           (calculate_detection_time DRUG_DIAMORPHINE r ds w a m 10000000000) < 0"
        "accumulation_factor_urine
           (calculate_detection_time DRUG_DIAMORPHINE r ds w a m 10000000000) < 0"
proof -
  have v: "valid_drug DRUG_DIAMORPHINE" by (simp add: valid_drug_def)
  note rr = calc_r_range32 [OF v assms, of ds w a m 10000000000]
  show "accumulation_factor_saliva
           (calculate_detection_time DRUG_DIAMORPHINE r ds w a m 10000000000) < 0"
    unfolding calc_fields(11) long_use_num_doses
    using rr(1,2) by (intro accumulation_negative) simp_all
  show "accumulation_factor_urine
           (calculate_detection_time DRUG_DIAMORPHINE r ds w a m 10000000000) < 0"
    unfolding calc_fields(12) long_use_num_doses
    using rr(3,4) by (intro accumulation_negative) simp_all
qed




subsection \<open>Build-up percentage\<close>

lemma buildup_negative:
  assumes "tc < 0" "0 < sc"
  shows "buildup tc sc < 0"
proof -
  define b where "b = tc / sc * 100"
  have "tc / sc < 0" using assms by (rule divide_neg_pos)
  then have b0: "b < 0" unfolding b_def by (rule mult_neg_pos) simp
  have "buildup tc sc = (if b > 100 then 100 else b)"
    by (simp add: buildup_def Let_def b_def)
  then show ?thesis using b0 by simp
qed

text \<open>
  C4, as stated, at a duration whose dose count does not fit the \<open>int\<close>. The input is
  valid in the sense of the claim: diamorphine and the intravenous route are in the
  tables, dosage 1000 mg and weight 76 kg are positive, and the duration of 10000000000
  hours is not negative. On the 32-bit build the dose count is negative, so the
  accumulation factor and the total concentration are negative, and the build-up
  percentage, which the program caps only from above, is below 0 in both matrices.
\<close>

theorem buildup_percent_range_counterexample:
  "valid_drug DRUG_DIAMORPHINE \<and> valid_route ROUTE_INTRAVENOUS \<and>
   (0::int) < 1000 \<and> (0::int) < 76 \<and> (0::real) \<le> 10000000000 \<and>
   buildup_saliva (calculate_detection_time DRUG_DIAMORPHINE ROUTE_INTRAVENOUS 1000 76 28 3 10000000000) < 0 \<and>
   buildup_urine (calculate_detection_time DRUG_DIAMORPHINE ROUTE_INTRAVENOUS 1000 76 28 3 10000000000) < 0"
proof -
  let ?res = "calculate_detection_time DRUG_DIAMORPHINE ROUTE_INTRAVENOUS 1000 76 28 3 10000000000"
  have v: "valid_drug DRUG_DIAMORPHINE" "valid_route ROUTE_INTRAVENOUS"
    by (simp_all add: valid_drug_def valid_route_def)
  have p: "(0::int) < 1000" "(0::int) < 76" by simp_all
  note sp = calc_single_pos32 [OF v(2) p, of DRUG_DIAMORPHINE 28 3 10000000000]
  note an = long_use_accum_negative [OF v(2), of 1000 76 28 3]
  note ke = calc_elim_pos [OF v, of 1000 76 28 3 10000000000]
  have ts: "total_conc_saliva ?res < 0"
    unfolding calc_fields(13) using sp(1) an(1) by (rule mult_pos_neg)
  have tu: "total_conc_urine ?res < 0"
    unfolding calc_fields(14) using sp(2) an(2) by (rule mult_pos_neg)
  have ss: "0 < steady_conc_saliva ?res"
    unfolding calc_fields(15)
    by (intro steady_conc_pos sp(1) ke(1) drugs_pos(5) v)
  have su: "0 < steady_conc_urine ?res"
    unfolding calc_fields(16)
    by (intro steady_conc_pos sp(2) ke(2) drugs_pos(5) v)
  have bs: "buildup_saliva ?res < 0"
    unfolding calc_fields(17) using ts ss by (rule buildup_negative)
  have bu: "buildup_urine ?res < 0"
    unfolding calc_fields(18) using tu su by (rule buildup_negative)
  show ?thesis using v bs bu by simp
qed

text \<open>
  C4, amended. For every build of the program, a drug and a route of the tables (so a
  positive half-life, cutoff and dosing interval), a positive dosage and weight, a
  non-negative duration and a dose count \<open>floor (duration / dosing_interval) + 1\<close> that
  is at most the largest \<open>int\<close>, the build-up percentage of each matrix is
  \<open>total / steady state * 100\<close> capped at 100, and it lies in the closed interval from 0
  to 100. The lower bound comes from the concentrations being non-negative; the program
  caps only from above.
\<close>

theorem buildup_percent_range:
  assumes "valid_drug drug" "valid_route route" "0 < dosage" "0 < weight" "0 \<le> duration"
      and "\<lfloor>duration / dosing_interval (drugs drug)\<rfloor> + 1 \<le> int_max tg"
  shows
  "(let res = calculate_detection_time_on tg drug route dosage weight age metab duration in
     buildup_saliva res = min 100 (total_conc_saliva res / steady_conc_saliva res * 100) \<and>
     0 \<le> buildup_saliva res \<and> buildup_saliva res \<le> 100 \<and>
     buildup_urine res = min 100 (total_conc_urine res / steady_conc_urine res * 100) \<and>
     0 \<le> buildup_urine res \<and> buildup_urine res \<le> 100)"
proof -
  let ?res = "calculate_detection_time_on tg drug route dosage weight age metab duration"
  have ts: "0 \<le> total_conc_saliva ?res"
    using calc_single_pos(1) [OF assms(2,3,4)] calc_accum_pos(1) [OF assms(1,2,5,6)]
    by (simp add: calc_on_fields(13) less_imp_le)
  have tu: "0 \<le> total_conc_urine ?res"
    using calc_single_pos(2) [OF assms(2,3,4)] calc_accum_pos(2) [OF assms(1,2,5,6)]
    by (simp add: calc_on_fields(14) less_imp_le)
  have ss: "0 < steady_conc_saliva ?res"
    unfolding calc_on_fields(15)
    by (intro steady_conc_pos calc_single_pos(1) calc_on_elim_pos(1) drugs_pos(5) assms)
  have su: "0 < steady_conc_urine ?res"
    unfolding calc_on_fields(16)
    by (intro steady_conc_pos calc_single_pos(2) calc_on_elim_pos(2) drugs_pos(5) assms)
  show ?thesis
    unfolding Let_def calc_on_fields(17,18)
    using buildup_range [OF ts ss] buildup_range [OF tu su] by blast
qed

theorem buildup_percent_range_witness:
  "valid_drug DRUG_DIAMORPHINE \<and> valid_route ROUTE_INTRAVENOUS \<and> (0::int) < 1000 \<and> (0::int) < 76 \<and> (0::real) \<le> 48 \<and>
   \<lfloor>(48::real) / dosing_interval (drugs DRUG_DIAMORPHINE)\<rfloor> + 1 \<le> int_max ia32 \<and>
   0 \<le> buildup_saliva (calculate_detection_time_on ia32 DRUG_DIAMORPHINE ROUTE_INTRAVENOUS 1000 76 28 3 48) \<and>
   buildup_saliva (calculate_detection_time_on ia32 DRUG_DIAMORPHINE ROUTE_INTRAVENOUS 1000 76 28 3 48) \<le> 100 \<and>
   0 \<le> buildup_urine (calculate_detection_time_on ia32 DRUG_DIAMORPHINE ROUTE_INTRAVENOUS 1000 76 28 3 48) \<and>
   buildup_urine (calculate_detection_time_on ia32 DRUG_DIAMORPHINE ROUTE_INTRAVENOUS 1000 76 28 3 48) \<le> 100"
proof -
  have v: "valid_drug DRUG_DIAMORPHINE" "valid_route ROUTE_INTRAVENOUS"
    by (simp_all add: valid_drug_def valid_route_def)
  have n: "(0::int) < 1000" "(0::int) < 76" "(0::real) \<le> 48" by simp_all
  have b: "\<lfloor>(48::real) / dosing_interval (drugs DRUG_DIAMORPHINE)\<rfloor> + 1 \<le> int_max ia32"
    by (simp add: drugs_def ia32_def)
  show ?thesis
    using v n b buildup_percent_range [OF v n b, of 28 3] unfolding Let_def by blast
qed

subsection \<open>Monotonicity in the duration of use\<close>

text \<open>
  C7, as stated, at a duration whose dose count does not fit the \<open>int\<close>. On the 32-bit
  build, for diamorphine, intravenous, dosage 1000 mg, 76 kg, age 28, fast metabolism:
  after 48 hours of use the accumulation factor and the total concentration are positive,
  and after 10000000000 hours, where the dose count is negative, both are negative. The
  longer duration gives the smaller factor and the smaller total, in both matrices.
\<close>

theorem accumulation_monotone_counterexample:
  "(0::real) \<le> 48 \<and> (48::real) \<le> 10000000000 \<and>
   accumulation_factor_saliva (calculate_detection_time DRUG_DIAMORPHINE ROUTE_INTRAVENOUS 1000 76 28 3 10000000000)
     < accumulation_factor_saliva (calculate_detection_time DRUG_DIAMORPHINE ROUTE_INTRAVENOUS 1000 76 28 3 48) \<and>
   accumulation_factor_urine (calculate_detection_time DRUG_DIAMORPHINE ROUTE_INTRAVENOUS 1000 76 28 3 10000000000)
     < accumulation_factor_urine (calculate_detection_time DRUG_DIAMORPHINE ROUTE_INTRAVENOUS 1000 76 28 3 48) \<and>
   total_conc_saliva (calculate_detection_time DRUG_DIAMORPHINE ROUTE_INTRAVENOUS 1000 76 28 3 10000000000)
     < total_conc_saliva (calculate_detection_time DRUG_DIAMORPHINE ROUTE_INTRAVENOUS 1000 76 28 3 48) \<and>
   total_conc_urine (calculate_detection_time DRUG_DIAMORPHINE ROUTE_INTRAVENOUS 1000 76 28 3 10000000000)
     < total_conc_urine (calculate_detection_time DRUG_DIAMORPHINE ROUTE_INTRAVENOUS 1000 76 28 3 48)"
proof -
  let ?res1 = "calculate_detection_time DRUG_DIAMORPHINE ROUTE_INTRAVENOUS 1000 76 28 3 48"
  let ?res2 = "calculate_detection_time DRUG_DIAMORPHINE ROUTE_INTRAVENOUS 1000 76 28 3 10000000000"
  have v: "valid_drug DRUG_DIAMORPHINE" "valid_route ROUTE_INTRAVENOUS"
    by (simp_all add: valid_drug_def valid_route_def)
  have p: "(0::int) < 1000" "(0::int) < 76" by simp_all
  have d: "(0::real) \<le> 48" by simp
  have b: "\<lfloor>(48::real) / dosing_interval (drugs DRUG_DIAMORPHINE)\<rfloor> + 1 \<le> int_max ia32"
    by (simp add: drugs_def ia32_def)
  note ap = calc_accum_pos [OF v d b, of 1000 76 28 3, folded calculate_detection_time_def]
  note an = long_use_accum_negative [OF v(2), of 1000 76 28 3]
  note s1 = calc_single_pos32 [OF v(2) p, of DRUG_DIAMORPHINE 28 3 48]
  note s2 = calc_single_pos32 [OF v(2) p, of DRUG_DIAMORPHINE 28 3 10000000000]
  have as: "accumulation_factor_saliva ?res2 < accumulation_factor_saliva ?res1"
    using an(1) ap(1) by (rule less_trans)
  have au: "accumulation_factor_urine ?res2 < accumulation_factor_urine ?res1"
    using an(2) ap(2) by (rule less_trans)
  have ts2: "total_conc_saliva ?res2 < 0"
    unfolding calc_fields(13) using s2(1) an(1) by (rule mult_pos_neg)
  have ts1: "0 < total_conc_saliva ?res1"
    unfolding calc_fields(13) using s1(1) ap(1) by (rule mult_pos_pos)
  have tu2: "total_conc_urine ?res2 < 0"
    unfolding calc_fields(14) using s2(2) an(2) by (rule mult_pos_neg)
  have tu1: "0 < total_conc_urine ?res1"
    unfolding calc_fields(14) using s1(2) ap(2) by (rule mult_pos_pos)
  have ts: "total_conc_saliva ?res2 < total_conc_saliva ?res1"
    using ts2 ts1 by (rule less_trans)
  have tu: "total_conc_urine ?res2 < total_conc_urine ?res1"
    using tu2 tu1 by (rule less_trans)
  show ?thesis using as au ts tu by simp
qed

text \<open>
  C7, amended. For every build of the program, a drug and a route of the tables and any
  dosage, weight, age and metabolism class, a longer duration of use (both durations
  non-negative, and the dose count \<open>floor (duration / dosing_interval) + 1\<close> of the
  longer one at most the largest \<open>int\<close>) never gives a smaller accumulation factor; and
  with a non-negative dosage and a positive weight it never gives a smaller total
  concentration. Both hold in either matrix.
\<close>

theorem accumulation_monotone:
  assumes "valid_drug drug" "valid_route route" "0 \<le> d1" "d1 \<le> d2"
      and "\<lfloor>d2 / dosing_interval (drugs drug)\<rfloor> + 1 \<le> int_max tg"
  shows
  "(let res1 = calculate_detection_time_on tg drug route dosage weight age metab d1;
        res2 = calculate_detection_time_on tg drug route dosage weight age metab d2 in
     accumulation_factor_saliva res1 \<le> accumulation_factor_saliva res2 \<and>
     accumulation_factor_urine res1 \<le> accumulation_factor_urine res2 \<and>
     (0 \<le> dosage \<and> 0 < weight \<longrightarrow>
        total_conc_saliva res1 \<le> total_conc_saliva res2 \<and>
        total_conc_urine res1 \<le> total_conc_urine res2))"
proof -
  let ?res1 = "calculate_detection_time_on tg drug route dosage weight age metab d1"
  let ?res2 = "calculate_detection_time_on tg drug route dosage weight age metab d2"
  note i0 = drugs_pos(5) [OF assms(1)]
  have "\<lfloor>d1 / dosing_interval (drugs drug)\<rfloor> \<le> \<lfloor>d2 / dosing_interval (drugs drug)\<rfloor>"
    using assms(4) i0 by (simp add: floor_mono divide_right_mono)
  then have b1: "\<lfloor>d1 / dosing_interval (drugs drug)\<rfloor> + 1 \<le> int_max tg"
    using assms(5) by simp
  have n1: "1 \<le> num_doses ?res1" using calc_num_doses_ge_1 [OF assms(1,3) b1] .
  have n12: "num_doses ?res1 \<le> num_doses ?res2"
    unfolding calc_on_fields(8) using assms(3,4) i0 assms(5) by (rule num_doses_mono)
  have rs: "r_factor_saliva ?res2 = r_factor_saliva ?res1"
    by (simp add: calc_on_fields(4,6,9))
  have ru: "r_factor_urine ?res2 = r_factor_urine ?res1"
    by (simp add: calc_on_fields(5,7,10))
  have as: "accumulation_factor_saliva ?res1 \<le> accumulation_factor_saliva ?res2"
    unfolding calc_on_fields(11) rs
    using calc_r_range(1,2) [OF assms(1,2)] n1 n12 by (intro accumulation_mono)
  have au: "accumulation_factor_urine ?res1 \<le> accumulation_factor_urine ?res2"
    unfolding calc_on_fields(12) ru
    using calc_r_range(3,4) [OF assms(1,2)] n1 n12 by (intro accumulation_mono)
  have ss: "single_conc_saliva ?res2 = single_conc_saliva ?res1"
    by (simp add: calc_on_fields(2))
  have su: "single_conc_urine ?res2 = single_conc_urine ?res1"
    by (simp add: calc_on_fields(3))
  have ts: "total_conc_saliva ?res1 \<le> total_conc_saliva ?res2"
    if "0 \<le> dosage" "0 < weight"
    unfolding calc_on_fields(13) ss
    using calc_single_nonneg(1) [OF assms(2) that] as by (intro mult_left_mono)
  have tu: "total_conc_urine ?res1 \<le> total_conc_urine ?res2"
    if "0 \<le> dosage" "0 < weight"
    unfolding calc_on_fields(14) su
    using calc_single_nonneg(2) [OF assms(2) that] au by (intro mult_left_mono)
  show ?thesis unfolding Let_def using as au ts tu by blast
qed

theorem accumulation_monotone_witness:
  "valid_drug DRUG_DIAMORPHINE \<and> valid_route ROUTE_INTRAVENOUS \<and> (0::real) \<le> 24 \<and> (24::real) \<le> 48 \<and>
   \<lfloor>(48::real) / dosing_interval (drugs DRUG_DIAMORPHINE)\<rfloor> + 1 \<le> int_max ia32 \<and>
   (0::int) \<le> 1000 \<and> (0::int) < 76 \<and>
   accumulation_factor_saliva (calculate_detection_time_on ia32 DRUG_DIAMORPHINE ROUTE_INTRAVENOUS 1000 76 28 3 24)
     \<le> accumulation_factor_saliva (calculate_detection_time_on ia32 DRUG_DIAMORPHINE ROUTE_INTRAVENOUS 1000 76 28 3 48) \<and>
   total_conc_saliva (calculate_detection_time_on ia32 DRUG_DIAMORPHINE ROUTE_INTRAVENOUS 1000 76 28 3 24)
     \<le> total_conc_saliva (calculate_detection_time_on ia32 DRUG_DIAMORPHINE ROUTE_INTRAVENOUS 1000 76 28 3 48)"
proof -
  have v: "valid_drug DRUG_DIAMORPHINE" "valid_route ROUTE_INTRAVENOUS"
    by (simp_all add: valid_drug_def valid_route_def)
  have d: "(0::real) \<le> 24" "(24::real) \<le> 48" by simp_all
  have b: "\<lfloor>(48::real) / dosing_interval (drugs DRUG_DIAMORPHINE)\<rfloor> + 1 \<le> int_max ia32"
    by (simp add: drugs_def ia32_def)
  have n: "(0::int) \<le> 1000" "(0::int) < 76" by simp_all
  show ?thesis
    using v d b n accumulation_monotone [OF v d b, of 1000 76 28 3] unfolding Let_def by blast
qed

subsection \<open>Days, hours, minutes and seconds\<close>

text \<open>
  The integer steps after the cast never leave the range of the \<open>int\<close> that holds the
  second count: whatever the cast delivered, the products \<open>hours * 3600\<close>,
  \<open>minutes * 60\<close> and \<open>days * 24\<close> and the remainder \<open>seconds - hours * 3600\<close> are no
  larger in absolute value than it.
\<close>

lemma sdiv_abs:
  assumes "0 < (b::int)"
  shows "\<bar>a sdiv b\<bar> = \<bar>a\<bar> div b"
  using assms
  by (cases "a = 0") (simp_all add: signed_divide_int_def abs_mult pos_imp_zdiv_nonneg_iff)

lemma sdiv_mult_abs_le:
  assumes "0 < (b::int)"
  shows "\<bar>a sdiv b * b\<bar> \<le> \<bar>a\<bar>"
proof -
  have "\<bar>a sdiv b * b\<bar> = \<bar>a\<bar> div b * b"
    using assms by (simp add: abs_mult sdiv_abs)
  also have "\<dots> \<le> \<bar>a\<bar>"
  proof -
    have "\<bar>a\<bar> div b * b + \<bar>a\<bar> mod b = \<bar>a\<bar>" by simp
    moreover have "0 \<le> \<bar>a\<bar> mod b" using assms by simp
    ultimately show ?thesis by linarith
  qed
  finally show ?thesis .
qed

lemma sdiv_rem_abs_le:
  assumes "0 < (b::int)"
  shows "\<bar>a - a sdiv b * b\<bar> \<le> \<bar>a\<bar>"
proof (cases "0 \<le> a")
  case True
  then have q: "a sdiv b = a div b" using assms by (rule sdiv_nonneg)
  have "a - a div b * b = a mod b" by (simp add: minus_div_mult_eq_mod)
  moreover have "0 \<le> a mod b" using assms by simp
  moreover have "a mod b \<le> a" using True assms by (simp add: zmod_le_nonneg_dividend)
  ultimately show ?thesis using True by (simp add: q)
next
  case False
  then have q: "a sdiv b = - ((- a) div b)"
    using assms by (simp add: signed_divide_int_def)
  have "(- a) - (- a) div b * b = (- a) mod b" by (simp add: minus_div_mult_eq_mod)
  then have e: "a - a sdiv b * b = - ((- a) mod b)" unfolding q by simp
  have "0 \<le> (- a) mod b" using assms by simp
  moreover have "(- a) mod b \<le> - a" using False assms by (simp add: zmod_le_nonneg_dividend)
  ultimately show ?thesis using False unfolding e by simp
qed

lemma decompose_time_intermediates:
  "\<bar>total_seconds (decompose_time_on tg dt) sdiv 3600 * 3600\<bar>
     \<le> \<bar>total_seconds (decompose_time_on tg dt)\<bar> \<and>
   \<bar>total_seconds (decompose_time_on tg dt)
      - total_seconds (decompose_time_on tg dt) sdiv 3600 * 3600\<bar>
     \<le> \<bar>total_seconds (decompose_time_on tg dt)\<bar> \<and>
   \<bar>minutes (decompose_time_on tg dt) * 60\<bar> \<le> \<bar>total_seconds (decompose_time_on tg dt)\<bar> \<and>
   \<bar>days (decompose_time_on tg dt) * 24\<bar> \<le> \<bar>total_seconds (decompose_time_on tg dt)\<bar>"
proof -
  define s where "s = c_int_cast tg (dt * 3600)"
  define h where "h = s sdiv 3600"
  have ts: "total_seconds (decompose_time_on tg dt) = s"
    by (simp add: decompose_time_on_def Let_def s_def)
  have mi: "minutes (decompose_time_on tg dt) = (s - h * 3600) sdiv 60"
    by (simp add: decompose_time_on_def Let_def s_def h_def)
  have da: "days (decompose_time_on tg dt) = h sdiv 24"
    by (simp add: decompose_time_on_def Let_def s_def h_def)
  have a: "\<bar>h * 3600\<bar> \<le> \<bar>s\<bar>" unfolding h_def by (rule sdiv_mult_abs_le) simp
  have b: "\<bar>s - h * 3600\<bar> \<le> \<bar>s\<bar>" unfolding h_def by (rule sdiv_rem_abs_le) simp
  have "\<bar>(s - h * 3600) sdiv 60 * 60\<bar> \<le> \<bar>s - h * 3600\<bar>" by (rule sdiv_mult_abs_le) simp
  then have c: "\<bar>(s - h * 3600) sdiv 60 * 60\<bar> \<le> \<bar>s\<bar>" using b by linarith
  have "\<bar>h sdiv 24 * 24\<bar> \<le> \<bar>h\<bar>" by (rule sdiv_mult_abs_le) simp
  moreover have "\<bar>h\<bar> \<le> \<bar>h * 3600\<bar>" by (simp add: abs_mult)
  ultimately have d: "\<bar>h sdiv 24 * 24\<bar> \<le> \<bar>s\<bar>" using a by linarith
  show ?thesis
    unfolding ts mi da h_def [symmetric] using a b c d by simp
qed



text \<open>
  With the 16-bit \<open>int\<close> of the Turbo C that the header of the source names, a detection
  time of 10 hours (36000 seconds) is already outside the range, and the second count is
  whatever the cast delivers there.
\<close>

lemma decompose_time_16_bit:
  assumes "int_max tg = 32767"
  shows "total_seconds (decompose_time_on tg 10) = cast_overflow tg 36000"
  using assms by (simp add: decompose_time_on_def c_int_cast_def c_trunc_def Let_def)



subsection \<open>The analysis line of the curve\<close>

text \<open>
  After the sampling loop the program raises \<open>cmax\<close> to at least twice the cutoff, for
  the scale of the chart, and the analysis then tests that raised value: with a positive
  cutoff the branch that prints the peak below the cutoff cannot be taken.
\<close>

lemma scale_cmax_above: "0 < cutoff \<Longrightarrow> cutoff < scale_cmax cutoff cmax"
  by (simp add: scale_cmax_def Let_def)

lemma curve_analysis_never_below:
  "0 < cutoff \<Longrightarrow> curve_analysis conc tm cutoff \<noteq> PeakBelowCutoff c"
  using scale_cmax_above [of cutoff "track_max conc"]
  by (simp add: curve_analysis_def Let_def)

lemma last_above_none:
  "(\<And>j. j \<le> i \<Longrightarrow> conc ! j \<le> cutoff) \<Longrightarrow> last_above conc tm cutoff i = 0"
  by (induction i) (simp_all add: not_less [symmetric] del: not_less)

lemma fold_max_le:
  "0 \<le> b \<Longrightarrow> m \<le> b \<Longrightarrow> (\<And>c. c \<in> set conc \<Longrightarrow> c \<le> b) \<Longrightarrow>
   fold (\<lambda>c cmax. if c > cmax then c else cmax) conc m \<le> b"
  by (induction conc arbitrary: m) simp_all

lemma track_max_le:
  "0 \<le> b \<Longrightarrow> (\<And>c. c \<in> set conc \<Longrightarrow> c \<le> b) \<Longrightarrow> track_max conc \<le> b"
  unfolding track_max_def by (rule fold_max_le) simp_all

lemma fold_max_ge: "m \<le> fold (\<lambda>c cmax. if c > cmax then c else cmax) conc (m::real)"
proof (induction conc arbitrary: m)
  case Nil
  then show ?case by simp
next
  case (Cons c conc)
  have "m \<le> (if c > m then c else m)" by simp
  also have "\<dots> \<le> fold (\<lambda>c cmax. if c > cmax then c else cmax) conc (if c > m then c else m)"
    by (rule Cons.IH)
  finally show ?case by simp
qed

lemma track_max_nonneg: "0 \<le> track_max conc"
  unfolding track_max_def by (rule fold_max_ge)

lemma conc_at_single_dose:
  assumes "num_doses_of duration interval = 1" "0 \<le> t" "0 \<le> kelim" "0 \<le> duration"
      and "absorption_rate' < 0.5" "0 \<le> single"
  shows "conc_at kelim duration interval single absorption_rate' t \<le> single"
proof -
  have e1: "exp (- (kelim * t)) \<le> 1" using assms by simp
  then have a: "single * exp (- (kelim * t)) \<le> single"
    using assms(6) by (simp add: mult_left_le)
  have c: "fold (add_dose kelim interval single absorption_rate' t)
             [0 ..< nat (num_doses_of duration interval)] 0 = single * exp (- (kelim * t))"
    using assms by (simp add: add_dose_def Let_def)
  show ?thesis
  proof (cases "t > duration")
    case True
    have "exp (- (kelim * (t - duration))) \<le> 1" using True assms by simp
    then have "single * exp (- (kelim * t)) * exp (- (kelim * (t - duration)))
                 \<le> single * exp (- (kelim * t))"
      using assms(6) by (simp add: mult_left_le)
    then show ?thesis using True a unfolding conc_at_def c by (simp add: Let_def)
  next
    case False
    then show ?thesis using a unfolding conc_at_def c by (simp add: Let_def)
  qed
qed

lemma curve_time_nonneg:
  assumes "t \<in> set (curve_time duration thalf)"
  shows "0 \<le> t"
proof -
  have "0 \<le> curve_dt duration thalf"
    by (simp add: curve_dt_def curve_tmax_def max_float_def)
  then show ?thesis using assms by (auto simp: curve_time_def)
qed

lemma length_curve_conc [simp]:
  "length (curve_conc kelim thalf duration interval single absorption_rate') = 61"
  by (simp add: curve_conc_def curve_time_def)

text \<open>
  C5 says: when no sampled concentration exceeds the cutoff, the analysis reports the
  peak below the cutoff and no detection. The program does not. For diamorphine,
  intravenous, 1 mg, 76 kg, age 28, fast metabolism and 0 hours of use, the largest
  sample is at most the saliva cutoff of 2 ng/mL, and the analysis printed is a time to
  non-detection of 0 hours with a peak of 4 ng/mL (twice the cutoff).
\<close>

theorem curve_peak_below_cutoff_failing_input:
  "(let res = calculate_detection_time DRUG_DIAMORPHINE ROUTE_INTRAVENOUS 1 76 28 3 0;
        conc = curve_conc (elim_rate_saliva res) (adj_halflife_saliva res) 0
                 (dosing_interval (drugs DRUG_DIAMORPHINE)) (single_conc_saliva res)
                 (absorpt (route_adj res))
    in track_max conc \<le> cutoff_saliva (drugs DRUG_DIAMORPHINE) \<and>
       calculate_curve DRUG_DIAMORPHINE ROUTE_INTRAVENOUS 1 76 28 3 0
         = TimeToNonDetection 0 4)"
proof -
  define res where "res = calculate_detection_time DRUG_DIAMORPHINE ROUTE_INTRAVENOUS 1 76 28 3 0"
  define conc where "conc = curve_conc (elim_rate_saliva res) (adj_halflife_saliva res) 0
                 (dosing_interval (drugs DRUG_DIAMORPHINE)) (single_conc_saliva res)
                 (absorpt (route_adj res))"
  have v: "valid_drug DRUG_DIAMORPHINE" "valid_route ROUTE_INTRAVENOUS"
    by (simp_all add: valid_drug_def valid_route_def)
  have cutoff: "cutoff_saliva (drugs DRUG_DIAMORPHINE) = 2" by (simp add: drugs_def)
  have interval: "dosing_interval (drugs DRUG_DIAMORPHINE) = 4" by (simp add: drugs_def)
  have p: "route_adj res = \<lparr>bioavail = 1, oral_fac = 0.08, absorpt = 0.1\<rparr>"
    by (simp add: res_def calc_fields(1) adjust_route_parameters_def route_params_of_def
          routes_def adj_defs)
  have single: "single_conc_saliva res = 0.08 / 76"
    using p by (simp add: res_def calc_fields(1,2) single_conc_def)
  have k: "0 < elim_rate_saliva res" unfolding res_def by (rule calc_elim_pos(1) [OF v])
  have n: "num_doses_of 0 4 = 1" by (simp add: num_doses_of_ia32)
  have le: "c \<le> 0.08 / 76" if "c \<in> set conc" for c
  proof -
    from that obtain t where t: "t \<in> set (curve_time 0 (adj_halflife_saliva res))"
      and c: "c = conc_at (elim_rate_saliva res) 0 4 (0.08 / 76) 0.1 t"
      by (auto simp: conc_def curve_conc_def interval single p)
    show ?thesis unfolding c
      using n curve_time_nonneg [OF t] k by (intro conc_at_single_dose) simp_all
  qed
  have tm: "track_max conc \<le> 0.08 / 76"
  proof (rule track_max_le)
    show "0 \<le> (0.08 / 76 :: real)" by simp
  next
    fix c assume "c \<in> set conc"
    then show "c \<le> 0.08 / 76" by (rule le)
  qed
  have tm0: "0 \<le> track_max conc" by (rule track_max_nonneg)
  have sc: "scale_cmax 2 (track_max conc) = 4"
    using tm tm0 by (simp add: scale_cmax_def Let_def)
  have la: "last_above conc (curve_time 0 (adj_halflife_saliva res)) 2 60 = 0"
  proof (rule last_above_none)
    fix j :: nat assume "j \<le> 60"
    then have "conc ! j \<in> set conc" by (simp add: conc_def)
    from le [OF this] show "conc ! j \<le> 2" by simp
  qed
  have an: "calculate_curve DRUG_DIAMORPHINE ROUTE_INTRAVENOUS 1 76 28 3 0
         = TimeToNonDetection 0 4"
    unfolding calculate_curve_def Let_def res_def [symmetric] plot_concentration_curve_def
      conc_def [symmetric] curve_analysis_def cutoff
    by (simp add: sc la)
  have "track_max conc \<le> cutoff_saliva (drugs DRUG_DIAMORPHINE)"
    using tm by (simp add: cutoff)
  then show ?thesis
    unfolding Let_def res_def [symmetric] conc_def [symmetric] using an by simp
qed

subsection \<open>Name resolution and rejection\<close>

lemma find_upto_range:
  "find P [lo .. hi] = Some (i::int) \<Longrightarrow> lo \<le> i \<and> i \<le> hi"
  by (auto simp: find_Some_iff dest: nth_mem)

lemma drug_alternatives_range:
  "drug_alternatives input = 0 \<or> (1 \<le> drug_alternatives input \<and> drug_alternatives input \<le> NUM_DRUGS)"
  by (simp add: drug_alternatives_def)

lemma get_drug_selection_range:
  "get_drug_selection buffer = 0 \<or>
   (1 \<le> get_drug_selection buffer \<and> get_drug_selection buffer \<le> NUM_DRUGS)"
  unfolding get_drug_selection_def Let_def
  using drug_alternatives_range
  by (auto split: option.splits dest: find_upto_range)

lemma first_match_range:
  "first_match input t = 0 \<or> first_match input t \<in> snd ` set t"
proof (induction t)
  case Nil
  then show ?case by simp
next
  case (Cons p t)
  obtain s r where p: "p = (s, r)" by (cases p)
  show ?case
  proof (cases "str_compare_upper input s = 0")
    case True
    then show ?thesis by (simp add: p)
  next
    case False
    then show ?thesis using Cons.IH by (auto simp: p)
  qed
qed

lemma route_alternatives_range:
  "r \<in> snd ` set route_alternatives_table \<Longrightarrow> 1 \<le> r \<and> r \<le> NUM_ROUTES"
  by (auto simp: route_alternatives_table_def)

lemma get_route_selection_range:
  "get_route_selection buffer = 0 \<or>
   (1 \<le> get_route_selection buffer \<and> get_route_selection buffer \<le> NUM_ROUTES)"
  unfolding get_route_selection_def Let_def
  using first_match_range route_alternatives_range
  by (auto split: option.splits dest: find_upto_range)

lemma drug_synonyms:
  "get_drug_selection ''heroin'' = DRUG_DIAMORPHINE"
  "get_drug_selection ''Meperidine'' = DRUG_PETHIDINE"
  "get_drug_selection ''ETHANOL'' = DRUG_ALCOHOL"
  "get_drug_selection ''propoxyphene'' = DRUG_DEXTROPROPOXYPHENE"
  "get_drug_selection (''Diamorphine'' @ [CHR 0x0A]) = DRUG_DIAMORPHINE"
  by code_simp+

lemma route_synonyms:
  "get_route_selection ''IV'' = ROUTE_INTRAVENOUS"
  "get_route_selection ''sc'' = ROUTE_SUBCUTANEOUS"
  "get_route_selection ''SL'' = ROUTE_SUBLINGUAL"
  "get_route_selection ''im'' = ROUTE_INTRAMUSCULAR"
  "get_route_selection (''topical'' @ [CHR 0x0A]) = ROUTE_TOPICAL"
  by code_simp+

lemma unknown_names:
  "get_drug_selection ''ASPIRIN'' = 0"
  "get_route_selection ''ORBITAL'' = 0"
  by code_simp+

text \<open>
  C9. For every input line, the drug resolution returns 0 or an identifier in 1..24 and
  the route resolution returns 0 or an identifier in 1..11, the documented synonyms and
  abbreviations included (heroin, meperidine; IV, SC, SL). When the drug resolves to 0, or
  the drug resolves and the route resolves to 0, \<open>main\<close> prints the rejection and returns 1
  without calling the calculation; and whenever the calculation ran, it ran on a drug and
  a route of the tables.
\<close>

theorem name_resolution:
  "(get_drug_selection drug_buffer = 0 \<or>
      (1 \<le> get_drug_selection drug_buffer \<and> get_drug_selection drug_buffer \<le> 24)) \<and>
   (get_route_selection route_buffer = 0 \<or>
      (1 \<le> get_route_selection route_buffer \<and> get_route_selection route_buffer \<le> 11)) \<and>
   get_drug_selection ''heroin'' = DRUG_DIAMORPHINE \<and>
   get_drug_selection ''Meperidine'' = DRUG_PETHIDINE \<and>
   get_route_selection ''IV'' = ROUTE_INTRAVENOUS \<and>
   get_route_selection ''sc'' = ROUTE_SUBCUTANEOUS \<and>
   get_route_selection ''SL'' = ROUTE_SUBLINGUAL \<and>
   (get_drug_selection (drug_line inp) = 0 \<longrightarrow>
      main_program inp = InvalidDrug \<and> exit_status (main_program inp) = 1) \<and>
   (get_drug_selection (drug_line inp) \<noteq> 0 \<and> get_route_selection (route_line inp) = 0 \<longrightarrow>
      main_program inp = InvalidRoute \<and> exit_status (main_program inp) = 1) \<and>
   (main_program inp = Calculated res an nmr \<longrightarrow>
      valid_drug (get_drug_selection (drug_line inp)) \<and>
      valid_route (get_route_selection (route_line inp)) \<and>
      res = calculate_detection_time (get_drug_selection (drug_line inp))
              (get_route_selection (route_line inp)) (in_dosage inp) (in_weight inp)
              (in_age inp) (in_metab inp) (in_duration inp))"
proof -
  have d: "get_drug_selection (drug_line inp) \<noteq> 0 \<Longrightarrow>
           valid_drug (get_drug_selection (drug_line inp))"
    using get_drug_selection_range [of "drug_line inp"] by (simp add: valid_drug_def)
  have r: "get_route_selection (route_line inp) \<noteq> 0 \<Longrightarrow>
           valid_route (get_route_selection (route_line inp))"
    using get_route_selection_range [of "route_line inp"] by (simp add: valid_route_def)
  have rej: "(get_drug_selection (drug_line inp) = 0 \<longrightarrow>
      main_program inp = InvalidDrug \<and> exit_status (main_program inp) = 1) \<and>
   (get_drug_selection (drug_line inp) \<noteq> 0 \<and> get_route_selection (route_line inp) = 0 \<longrightarrow>
      main_program inp = InvalidRoute \<and> exit_status (main_program inp) = 1)"
    by (simp add: main_program_def Let_def exit_status_def)
  have calc: "main_program inp = Calculated res an nmr \<longrightarrow>
      valid_drug (get_drug_selection (drug_line inp)) \<and>
      valid_route (get_route_selection (route_line inp)) \<and>
      res = calculate_detection_time (get_drug_selection (drug_line inp))
              (get_route_selection (route_line inp)) (in_dosage inp) (in_weight inp)
              (in_age inp) (in_metab inp) (in_duration inp)"
    using d r by (auto simp: main_program_def Let_def split: if_splits)
  show ?thesis
    using get_drug_selection_range [of drug_buffer] get_route_selection_range [of route_buffer]
      drug_synonyms(1,2) route_synonyms(1,2,3) rej calc
    by blast
qed

theorem name_resolution_witness:
  "get_drug_selection ''ASPIRIN'' = 0 \<and>
   main_program \<lparr>drug_line = ''ASPIRIN'', route_line = ''IV'', in_dosage = 1000,
      in_weight = 76, in_age = 28, in_metab = 3, in_duration = 48, in_answer = CHR ''N'',
      in_rand = (\<lambda>i. 0)\<rparr> = InvalidDrug \<and>
   get_drug_selection ''HEROIN'' \<noteq> 0 \<and> get_route_selection ''ORBITAL'' = 0 \<and>
   main_program \<lparr>drug_line = ''HEROIN'', route_line = ''ORBITAL'', in_dosage = 1000,
      in_weight = 76, in_age = 28, in_metab = 3, in_duration = 48, in_answer = CHR ''N'',
      in_rand = (\<lambda>i. 0)\<rparr> = InvalidRoute"
proof -
  have h: "get_drug_selection ''HEROIN'' = 24" by code_simp
  show ?thesis
    using name_resolution [of "[]" "[]" "\<lparr>drug_line = ''ASPIRIN'', route_line = ''IV'', in_dosage = 1000,
      in_weight = 76, in_age = 28, in_metab = 3, in_duration = 48, in_answer = CHR ''N'',
      in_rand = (\<lambda>i. 0)\<rparr>"]
      name_resolution [of "[]" "[]" "\<lparr>drug_line = ''HEROIN'', route_line = ''ORBITAL'', in_dosage = 1000,
      in_weight = 76, in_age = 28, in_metab = 3, in_duration = 48, in_answer = CHR ''N'',
      in_rand = (\<lambda>i. 0)\<rparr>"]
    by (simp add: unknown_names h)
qed

subsection \<open>The spectrum of an all-zero intensity array\<close>

lemma fold_max_float_zero:
  "set spectrum \<subseteq> {0} \<Longrightarrow> fold (\<lambda>s m. max_float m s) spectrum 0 = 0"
  by (induction spectrum) (simp_all add: max_float_def)

lemma nmr_spec_max_zero: "set spectrum \<subseteq> {0} \<Longrightarrow> nmr_spec_max spectrum = 1"
  by (simp add: nmr_spec_max_def fold_max_float_zero)

lemma star_grid_rows: "CHR ''*'' \<notin> set l \<Longrightarrow> CHR ''*'' \<notin> set (grid_rows line l)"
  by (auto simp: grid_rows_def)

lemma star_mark_peaks:
  assumes "set spectrum \<subseteq> {0}" "0 < thresh" "CHR ''*'' \<notin> set l"
  shows "CHR ''*'' \<notin> set (mark_peaks spectrum thresh l)"
proof
  assume "CHR ''*'' \<in> set (mark_peaks spectrum thresh l)"
  then obtain s c where sc: "(s, c) \<in> set (zip spectrum l)"
    and st: "(if s \<ge> thresh then CHR ''*'' else c) = CHR ''*''"
    by (auto simp: mark_peaks_def)
  from sc have "s \<in> set spectrum" "c \<in> set l" by (auto dest: set_zip_leftD set_zip_rightD)
  with assms have "s = 0" "c \<noteq> CHR ''*''" by auto
  with st assms(2) show False by simp
qed

lemma star_fold_update:
  assumes "\<And>i l. CHR ''*'' \<notin> set l \<Longrightarrow> CHR ''*'' \<notin> set (f i l)"
  shows "CHR ''*'' \<notin> set l \<Longrightarrow> CHR ''*'' \<notin> set (fold f is l)"
  by (induction "is" arbitrary: l) (simp_all add: assms)

lemma star_list_update:
  "CHR ''*'' \<notin> set l \<Longrightarrow> c \<noteq> CHR ''*'' \<Longrightarrow> CHR ''*'' \<notin> set (l[i := c])"
  using set_update_subset_insert [of l i c] by auto

lemma star_major_grid: "CHR ''*'' \<notin> set l \<Longrightarrow> CHR ''*'' \<notin> set (major_grid l)"
  unfolding major_grid_def by (rule star_fold_update) (simp_all add: star_list_update)

lemma star_minor_grid: "CHR ''*'' \<notin> set l \<Longrightarrow> CHR ''*'' \<notin> set (minor_grid l)"
  unfolding minor_grid_def by (rule star_fold_update) (simp_all add: star_list_update)

lemma star_nmr_row:
  assumes "set spectrum \<subseteq> {0}" "0 < spec_max" "1 \<le> line"
  shows "CHR ''*'' \<notin> set (nmr_row spectrum spec_max line)"
proof -
  have t: "0 < spec_max * real_of_int line / real_of_int PLOT_HEIGHT"
    using assms by simp
  have "CHR ''*'' \<notin> set (replicate SPECTRUM_WIDTH (CHR '' ''))" by simp
  then show ?thesis
    unfolding nmr_row_def Let_def
    by (intro star_minor_grid star_major_grid star_mark_peaks [OF assms(1) t] star_grid_rows)
qed

lemma add_peak_zero:
  assumes "set spectrum \<subseteq> {0}"
    and "concentration = 0 \<or> intensities nmr_data ! j = 0"
  shows "set (add_peak concentration nmr_data j spectrum) \<subseteq> {0}"
  using assms by (auto simp: add_peak_def Let_def dest: set_zip_rightD)

lemma nmr_spectrum_zero_conc: "set (nmr_spectrum 0 nmr_data) \<subseteq> {0}"
proof -
  have "set (fold (add_peak 0 nmr_data) js spectrum) \<subseteq> {0}"
    if "set spectrum \<subseteq> {0}" for js spectrum
    using that by (induction js arbitrary: spectrum) (simp_all add: add_peak_zero)
  then show ?thesis by (simp add: nmr_spectrum_def)
qed

lemma nmr_spectrum_zero_intensities:
  assumes "\<And>j. j < nat (num_peaks nmr_data) \<Longrightarrow> intensities nmr_data ! j = 0"
  shows "set (nmr_spectrum concentration nmr_data) \<subseteq> {0}"
proof -
  have "set (fold (add_peak concentration nmr_data) js spectrum) \<subseteq> {0}"
    if "set spectrum \<subseteq> {0}" "set js \<subseteq> {..< nat (num_peaks nmr_data)}" for js spectrum
    using that by (induction js arbitrary: spectrum) (simp_all add: add_peak_zero assms)
  moreover have "set [0 ..< nat (num_peaks nmr_data)] \<subseteq> {..< nat (num_peaks nmr_data)}"
    by auto
  moreover have "set (replicate SPECTRUM_WIDTH (0::real)) \<subseteq> {0}" by simp
  ultimately show ?thesis unfolding nmr_spectrum_def by blast
qed

text \<open>
  C10. When the summed intensity array is zero everywhere (as it is for a concentration of
  0, and when every peak intensity is 0), the maximum used for scaling is 1, the threshold
  of each of the 50 rows is positive, and no row contains the peak marker \<open>*\<close>.
\<close>

theorem spectrum_all_zero:
  assumes "set (nmr_spectrum concentration nmr_data) \<subseteq> {0}"
  shows "plot_spec_max (nmr_plot drug concentration nmr_data) = 1 \<and>
         length (plot_rows (nmr_plot drug concentration nmr_data)) = 50 \<and>
         (\<forall>line. 1 \<le> line \<and> line \<le> PLOT_HEIGHT \<longrightarrow>
            0 < plot_spec_max (nmr_plot drug concentration nmr_data) * real_of_int line /
                  real_of_int PLOT_HEIGHT) \<and>
         CHR ''*'' \<notin> set (concat (plot_rows (nmr_plot drug concentration nmr_data)))"
proof -
  have m: "nmr_spec_max (nmr_spectrum concentration nmr_data) = 1"
    by (rule nmr_spec_max_zero [OF assms])
  have rows: "CHR ''*'' \<notin> set (nmr_row (nmr_spectrum concentration nmr_data) 1 line)"
    if "line \<in> set (rev [1 .. PLOT_HEIGHT])" for line
    using that by (intro star_nmr_row assms) simp_all
  show ?thesis
    using rows by (auto simp: nmr_plot_def Let_def m)
qed


theorem spectrum_all_zero_witness:
  "set (nmr_spectrum 0 (generate_nmr_data DRUG_FENTANYL (\<lambda>i. 7))) \<subseteq> {0} \<and>
   plot_spec_max (nmr_plot DRUG_FENTANYL 0 (generate_nmr_data DRUG_FENTANYL (\<lambda>i. 7))) = 1 \<and>
   CHR ''*'' \<notin> set (concat (plot_rows
      (nmr_plot DRUG_FENTANYL 0 (generate_nmr_data DRUG_FENTANYL (\<lambda>i. 7)))))"
  using spectrum_all_zero [OF nmr_spectrum_zero_conc, of DRUG_FENTANYL "generate_nmr_data DRUG_FENTANYL (\<lambda>i. 7)"]
        nmr_spectrum_zero_conc [of "generate_nmr_data DRUG_FENTANYL (\<lambda>i. 7)"]
  by blast

subsection \<open>The documented example run\<close>

text \<open>
  Bounds for \<open>exp\<close> at the two arguments of the example, from the quadratic Taylor
  bounds at a small argument and repeated squaring with outward rounding.
\<close>

lemma exp_square_lower:
  assumes "0 \<le> a" "a \<le> exp z" "a' \<le> a * a" "2 * z = z'"
  shows "a' \<le> exp (z'::real)"
proof -
  have "a * a \<le> exp z * exp z" using assms(1,2) by (intro mult_mono) simp_all
  also have "\<dots> = exp z'" using assms(4) by (simp add: exp_add [symmetric])
  finally show ?thesis using assms(3) by simp
qed

lemma exp_square_upper:
  assumes "exp z \<le> b" "b * b \<le> b'" "2 * z = z'"
  shows "exp (z'::real) \<le> b'"
proof -
  have b0: "0 \<le> b" using assms(1) exp_ge_zero [of z] by (rule order_trans [rotated])
  have "exp z' = exp z * exp z" using assms(3) by (simp add: exp_add [symmetric])
  also have "\<dots> \<le> b * b" using assms(1) b0 by (intro mult_mono) simp_all
  finally show ?thesis using assms(2) by simp
qed

lemma exp_saliva_lower: "1.74692642 \<le> exp (0.557865::real)"
proof -
  have t: "1 + 0.008716640625 + (0.008716640625)\<^sup>2 / 2 \<le> exp (0.008716640625::real)"
    by (rule exp_lower_Taylor_quadratic) simp
  have a0: "1.00875463 \<le> exp (0.008716640625::real)"
    by (rule order_trans [OF _ t]) (simp add: power2_eq_square)
  have a1: "1.017585903 \<le> exp (0.01743328125::real)"
    by (rule exp_square_lower [OF _ a0]) simp_all
  have a2: "1.035481069 \<le> exp (0.0348665625::real)"
    by (rule exp_square_lower [OF _ a1]) simp_all
  have a3: "1.072221044 \<le> exp (0.069733125::real)"
    by (rule exp_square_lower [OF _ a2]) simp_all
  have a4: "1.149657967 \<le> exp (0.13946625::real)"
    by (rule exp_square_lower [OF _ a3]) simp_all
  have a5: "1.321713441 \<le> exp (0.2789325::real)"
    by (rule exp_square_lower [OF _ a4]) simp_all
  show ?thesis
    by (rule exp_square_lower [OF _ a5]) simp_all
qed

lemma exp_saliva_upper: "exp (0.557865::real) \<le> 1.751142192"
proof -
  have t: "exp (0.008716640625::real) \<le> 1 + 0.008716640625 + (0.008716640625)\<^sup>2"
    by (rule exp_bound) simp_all
  have b0: "exp (0.008716640625::real) \<le> 1.008792621"
    by (rule order_trans [OF t]) (simp add: power2_eq_square)
  have b1: "exp (0.01743328125::real) \<le> 1.017662553"
    by (rule exp_square_upper [OF b0]) simp_all
  have b2: "exp (0.0348665625::real) \<le> 1.035637072"
    by (rule exp_square_upper [OF b1]) simp_all
  have b3: "exp (0.069733125::real) \<le> 1.072544145"
    by (rule exp_square_upper [OF b2]) simp_all
  have b4: "exp (0.13946625::real) \<le> 1.150350943"
    by (rule exp_square_upper [OF b3]) simp_all
  have b5: "exp (0.2789325::real) \<le> 1.323307293"
    by (rule exp_square_upper [OF b4]) simp_all
  show ?thesis
    by (rule exp_square_upper [OF b5]) simp_all
qed

lemmas example_fields =
  calc_fields [of DRUG_DIAMORPHINE ROUTE_INTRAVENOUS 1000 76 28 3 48, folded example_run_def]

lemma example_route: "route_adj example_run = \<lparr>bioavail = 1, oral_fac = 0.08, absorpt = 0.1\<rparr>"
  by (simp add: example_fields(1) adjust_route_parameters_def route_params_of_def
        routes_def adj_defs)

lemma example_single:
  "single_conc_saliva example_run = 20 / 19" "single_conc_urine example_run = 20 / 19"
  using example_route by (simp_all add: example_fields(1,2,3) single_conc_def)

lemma example_num_doses: "num_doses example_run = 13"
  by (simp add: example_fields(8) num_doses_of_ia32 drugs_def)

lemma example_halflife:
  "adj_halflife_saliva example_run = 8" "adj_halflife_urine example_run = 24"
  using example_route
  by (simp_all add: example_fields(1,4,5) flip_flop_def drugs_def)

lemma example_elim:
  "elim_rate_saliva example_run = 0.13946625" "elim_rate_urine example_run = 0.04648875"
  using example_halflife
  by (simp_all add: example_fields(6,7) elim_rate_def age_factor_def
        metab_factor_def)

lemma example_r:
  "r_factor_saliva example_run = 1 - inverse (exp 0.557865)"
  "r_factor_urine example_run = 1 - inverse (exp 0.185955)"
  using example_elim
  by (simp_all add: example_fields(9,10) r_factor_def drugs_def exp_minus)

lemma accumulation_else:
  "\<not> \<bar>r - 1\<bar> < 0.001 \<Longrightarrow> 0 \<le> n \<Longrightarrow>
   accumulation_factor r n = (1 - r ^ nat n) / (1 - r)"
  by (simp add: accumulation_factor_def c_pow_def)

lemma accumulation_13:
  fixes E :: real
  assumes "1 < E" "E \<le> 2"
  shows "accumulation_factor (1 - inverse E) 13 = (1 - (1 - inverse E) ^ 13) * E"
proof -
  define r where "r = 1 - inverse E"
  have d: "1 - r = inverse E" by (simp add: r_def)
  have "inverse 2 \<le> inverse E" using assms by (intro le_imp_inverse_le) simp_all
  moreover have "\<bar>r - 1\<bar> = inverse E" using assms by (simp add: r_def)
  ultimately have "\<not> \<bar>r - 1\<bar> < 0.001" by simp
  then have "accumulation_factor r 13 = (1 - r ^ nat 13) / (1 - r)"
    by (rule accumulation_else) simp
  also have "\<dots> = (1 - r ^ 13) / inverse E" by (simp only: d) simp
  also have "\<dots> = (1 - r ^ 13) * E" by (simp only: divide_inverse inverse_inverse_eq)
  finally show ?thesis unfolding r_def .
qed

lemma example_accum_saliva:
  "1.7468 < accumulation_factor_saliva example_run"
  "accumulation_factor_saliva example_run < 1.7512"
proof -
  define E :: real where "E = exp 0.557865"
  have lo: "1.74692642 \<le> E" and hi: "E \<le> 1.751142192"
    unfolding E_def by (rule exp_saliva_lower, rule exp_saliva_upper)
  have acc: "accumulation_factor_saliva example_run = (1 - (1 - inverse E) ^ 13) * E"
    unfolding example_fields(11) example_r example_num_doses E_def [symmetric]
    using lo hi by (intro accumulation_13) simp_all
  have i1: "inverse E \<le> 1" using lo by (simp add: inverse_le_1_iff)
  have "inverse 1.751142192 \<le> inverse E" using lo hi by (intro le_imp_inverse_le) simp_all
  then have i2: "0.57 \<le> inverse E" by simp
  have r0: "0 \<le> 1 - inverse E" using i1 by simp
  have r1: "1 - inverse E \<le> 0.43" using i2 by simp
  have "(1 - inverse E) ^ 13 \<le> 0.43 ^ 13" using r1 r0 by (rule power_mono)
  also have "\<dots> \<le> (0.00002::real)" by (simp add: power_divide)
  finally have p: "(1 - inverse E) ^ 13 \<le> 0.00002" .
  have p0: "0 \<le> (1 - inverse E) ^ 13" using r0 by simp
  have "0.99998 * 1.74692642 \<le> (1 - (1 - inverse E) ^ 13) * E"
    using p lo by (intro mult_mono) simp_all
  then show "1.7468 < accumulation_factor_saliva example_run" unfolding acc by simp
  have "(1 - (1 - inverse E) ^ 13) * E \<le> 1 * E"
    using p0 lo by (intro mult_right_mono) simp_all
  then show "accumulation_factor_saliva example_run < 1.7512" unfolding acc using hi by simp
qed

lemma example_total_saliva:
  "1.8387 < total_conc_saliva example_run" "total_conc_saliva example_run < 1.8434"
  using example_accum_saliva
  by (simp_all add: example_fields(13) example_single)

lemma example_cutoffs:
  "cutoff_saliva (drugs DRUG_DIAMORPHINE) = 2" "cutoff_urine (drugs DRUG_DIAMORPHINE) = 10"
  by (simp_all add: drugs_def)

lemma example_detection_saliva: "detection_time_saliva example_run = 0"
  using example_total_saliva(2)
  by (simp add: example_fields(19) example_cutoffs
        detection_time_def)

lemma exp_urine_bounds: "1 < exp (0.185955::real)" "exp (0.185955::real) \<le> 1.2206"
proof -
  show "1 < exp (0.185955::real)" by simp
  have t: "exp (0.185955::real) \<le> 1 + 0.185955 + (0.185955)\<^sup>2"
    by (rule exp_bound) simp_all
  show "exp (0.185955::real) \<le> 1.2206"
    by (rule order_trans [OF t]) (simp add: power2_eq_square)
qed

lemma example_accum_urine:
  "0 < accumulation_factor_urine example_run" "accumulation_factor_urine example_run < 1.2207"
proof -
  define E :: real where "E = exp 0.185955"
  have lo: "1 < E" and hi: "E \<le> 1.2206"
    unfolding E_def by (rule exp_urine_bounds(1), rule exp_urine_bounds(2))
  have acc: "accumulation_factor_urine example_run = (1 - (1 - inverse E) ^ 13) * E"
    unfolding example_fields(12) example_r example_num_doses E_def [symmetric]
    using lo hi by (intro accumulation_13) simp_all
  have i0: "0 < inverse E" using lo by simp
  have i1: "inverse E < 1" using lo by (simp add: inverse_less_1_iff)
  have r0: "0 \<le> 1 - inverse E" and r1: "1 - inverse E < 1" using i0 i1 by simp_all
  have p0: "0 \<le> (1 - inverse E) ^ 13" using r0 by simp
  have p1: "(1 - inverse E) ^ 13 < 1" using r0 r1 by (simp add: power_less_one_iff)
  show "0 < accumulation_factor_urine example_run"
    unfolding acc using p1 lo by (intro mult_pos_pos) simp_all
  have "(1 - (1 - inverse E) ^ 13) * E \<le> 1 * E"
    using p0 lo by (intro mult_right_mono) simp_all
  then show "accumulation_factor_urine example_run < 1.2207" unfolding acc using hi by simp
qed

lemma example_total_urine:
  "0 < total_conc_urine example_run" "total_conc_urine example_run < 1.285"
  using example_accum_urine
  by (simp_all add: example_fields(14) example_single)

lemma example_detection_urine: "detection_time_urine example_run = 0"
  using example_total_urine(2)
  by (simp add: example_fields(20) example_cutoffs
        detection_time_def)

lemma decompose_time_zero:
  "decompose_time 0 = \<lparr>total_seconds = 0, days = 0, hours = 0, minutes = 0, seconds = 0\<rparr>"
  by (simp add: decompose_time_def decompose_time_on_def c_int_cast_def ia32_def c_trunc_def
        Let_def)

lemma example_times:
  "time_s example_run = \<lparr>total_seconds = 0, days = 0, hours = 0, minutes = 0, seconds = 0\<rparr>"
  "time_u example_run = \<lparr>total_seconds = 0, days = 0, hours = 0, minutes = 0, seconds = 0\<rparr>"
  using example_detection_saliva example_detection_urine
  by (simp_all add: example_fields(21,22) decompose_time_zero)

lemma abs_diff_less:
  fixes x :: real
  shows "lo < x \<Longrightarrow> x < hi \<Longrightarrow> c - e \<le> lo \<Longrightarrow> hi \<le> c + e \<Longrightarrow> \<bar>x - c\<bar> < e"
  by linarith

text \<open>
  C6, as stated. For diamorphine, intravenous, 1000 mg, 76 kg, age 28, fast metabolism and
  48 hours the claim gives an accumulation factor of about 13.0, a total concentration of
  about 13.68 ng/mL, an elimination rate of about 5.74 per hour and a detection time of
  about 197 seconds against a cutoff of 10 ng/mL. The program computes none of these, for
  the saliva nor for the urine matrix: its table gives diamorphine a saliva half-life of 8
  hours and a saliva cutoff of 2 ng/mL.
\<close>

theorem diamorphine_example_counterexample:
  "\<not> \<bar>accumulation_factor_saliva example_run - 13\<bar> < 0.05 \<and>
   \<not> \<bar>total_conc_saliva example_run - 13.68\<bar> < 0.005 \<and>
   \<not> \<bar>elim_rate_saliva example_run - 5.74\<bar> < 0.005 \<and>
   \<not> \<bar>detection_time_saliva example_run * 3600 - 197\<bar> < 1 \<and>
   cutoff_saliva (drugs DRUG_DIAMORPHINE) \<noteq> 10 \<and>
   \<not> \<bar>accumulation_factor_urine example_run - 13\<bar> < 0.05 \<and>
   \<not> \<bar>total_conc_urine example_run - 13.68\<bar> < 0.005 \<and>
   \<not> \<bar>elim_rate_urine example_run - 5.74\<bar> < 0.005 \<and>
   \<not> \<bar>detection_time_urine example_run * 3600 - 197\<bar> < 1"
  using example_accum_saliva example_total_saliva example_accum_urine example_total_urine
  by (simp add: example_elim example_detection_saliva example_detection_urine example_cutoffs)

text \<open>
  C6, amended. For that input the bioavailability resolves to 1.0 and the oral factor to
  0.08, the single dose concentration is about 1.05 ng/mL and there are 13 doses; for
  saliva the elimination rate is about 0.1395 per hour, the accumulation factor about
  1.75 and the total concentration about 1.84 ng/mL, below the saliva cutoff of 2 ng/mL,
  so the detection time is 0 seconds; for urine the elimination rate is about 0.0465 per
  hour and the total concentration is below the cutoff of 10 ng/mL, so the detection time
  is 0 seconds as well.
\<close>

theorem diamorphine_example:
  "bioavail (route_adj example_run) = 1 \<and> oral_fac (route_adj example_run) = 0.08 \<and>
   \<bar>single_conc_saliva example_run - 1.05\<bar> < 0.005 \<and>
   num_doses example_run = 13 \<and>
   \<bar>elim_rate_saliva example_run - 0.1395\<bar> < 0.00005 \<and>
   \<bar>accumulation_factor_saliva example_run - 1.75\<bar> < 0.005 \<and>
   \<bar>total_conc_saliva example_run - 1.84\<bar> < 0.005 \<and>
   cutoff_saliva (drugs DRUG_DIAMORPHINE) = 2 \<and>
   total_conc_saliva example_run < cutoff_saliva (drugs DRUG_DIAMORPHINE) \<and>
   detection_time_saliva example_run = 0 \<and>
   time_s example_run =
     \<lparr>total_seconds = 0, days = 0, hours = 0, minutes = 0, seconds = 0\<rparr> \<and>
   \<bar>elim_rate_urine example_run - 0.0465\<bar> < 0.00005 \<and>
   cutoff_urine (drugs DRUG_DIAMORPHINE) = 10 \<and>
   total_conc_urine example_run < cutoff_urine (drugs DRUG_DIAMORPHINE) \<and>
   detection_time_urine example_run = 0 \<and>
   time_u example_run =
     \<lparr>total_seconds = 0, days = 0, hours = 0, minutes = 0, seconds = 0\<rparr>"
proof -
  have a: "\<bar>accumulation_factor_saliva example_run - 1.75\<bar> < 0.005"
    by (rule abs_diff_less [OF example_accum_saliva]) simp_all
  have t: "\<bar>total_conc_saliva example_run - 1.84\<bar> < 0.005"
    by (rule abs_diff_less [OF example_total_saliva]) simp_all
  have ts: "total_conc_saliva example_run < 2" using example_total_saliva(2) by simp
  have tu: "total_conc_urine example_run < 10" using example_total_urine(2) by simp
  show ?thesis
    using a t ts tu
    by (simp add: example_route example_single example_num_doses example_elim example_cutoffs
          example_detection_saliva example_detection_urine example_times)
qed

end
